theory Spec2Isabelle
  imports Main "HOL-Library.Sublist" "HOL-Library.Multiset"
begin

section \<open>Data model\<close>

text \<open>
  The user-management server actions exist in two versions: the file
  \<^verbatim>\<open>src/lib/actions/user-actions.ts\<close> (listing built by string interpolation, hard
  delete, statistics over all rows) and the file \<^verbatim>\<open>src/unnamed/part_001\<close> (listing
  with positional parameters, soft delete, statistics without inactive rows). Functions
  that are the same in both files are modelled once; where the files differ, the
  definition from \<^verbatim>\<open>part_001\<close> carries the suffix of its behaviour
  (\<open>_param\<close>, \<open>_soft\<close>, \<open>_active\<close>) and the one from \<^verbatim>\<open>user-actions.ts\<close> carries
  \<open>_interp\<close>, \<open>_hard\<close>, \<open>_all\<close>.
\<close>

datatype UserRole = Student | Faculty | Librarian | Admin

datatype UserStatus = Active | Suspended | Inactive

text \<open>
  Modelled from the spec: the type \<^verbatim>\<open>User\<close> is imported from \<^verbatim>\<open>@/lib/db\<close>, which is not
  among the sources. The columns are those of section 3 of the specification and those
  the statements of the actions name. The column \<^verbatim>\<open>id\<close> is the field \<open>user_id\<close>
  here (\<open>id\<close> is the identity function of HOL).
\<close>

record User =
  user_id :: string
  email :: string
  password_hash :: string
  full_name :: string
  role :: UserRole
  status :: UserStatus
  university_id :: "string option"
  university_name :: "string option"
  department :: "string option"
  year_level :: "string option"
  course :: "string option"
  phone :: "string option"
  avatar_url :: "string option"
  created_at :: nat

text \<open>The strings that the TypeScript unions \<^verbatim>\<open>UserRole\<close> and \<^verbatim>\<open>UserStatus\<close> stand for.\<close>

fun role_text :: "UserRole \<Rightarrow> string" where
  "role_text Student = ''student''"
| "role_text Faculty = ''faculty''"
| "role_text Librarian = ''librarian''"
| "role_text Admin = ''admin''"

fun status_text :: "UserStatus \<Rightarrow> string" where
  "status_text Active = ''active''"
| "status_text Suspended = ''suspended''"
| "status_text Inactive = ''inactive''"

section \<open>Strings\<close>

text \<open>
  A string is the list of its characters: a \<open>char\<close> stands for one character of the
  text, as JavaScript and the database count them, not for a byte of an encoding (the
  type has 256 of them).

  Case folding is not defined here. \<^verbatim>\<open>String.prototype.toLowerCase\<close> of JavaScript and
  \<^verbatim>\<open>LOWER\<close> of the database are builtins of the platform, which fold the letters of
  every alphabet as the runtime and the database's locale say; they are the fields
  \<open>toLowerCase\<close> and \<open>sql_LOWER\<close> of the world below, any two functions on strings.
  On a text of ASCII characters both builtins fold \<^verbatim>\<open>A\<close> to \<^verbatim>\<open>Z\<close> and nothing else:
  \<open>ascii_lower\<close> is this folding, for the examples.
\<close>

definition ascii_lower_char :: "char \<Rightarrow> char" where
  "ascii_lower_char c =
     (case map_of (zip ''ABCDEFGHIJKLMNOPQRSTUVWXYZ'' ''abcdefghijklmnopqrstuvwxyz'') c of
        Some d \<Rightarrow> d
      | None \<Rightarrow> c)"

definition ascii_lower :: "string \<Rightarrow> string" where
  "ascii_lower s = map ascii_lower_char s"

text \<open>Decimal rendering of a number inside a template literal (\<^verbatim>\<open>$${values.length}\<close>).\<close>

fun show_nat :: "nat \<Rightarrow> string" where
  "show_nat n =
     (if n < 10 then [''0123456789'' ! n]
      else show_nat (n div 10) @ [''0123456789'' ! (n mod 10)])"

declare show_nat.simps [simp del]

text \<open>\<^verbatim>\<open>Array.prototype.join\<close>.\<close>

fun join :: "string \<Rightarrow> string list \<Rightarrow> string" where
  "join sep [] = []"
| "join sep [x] = x"
| "join sep (x # y # ys) = x @ sep @ join sep (y # ys)"

text \<open>Truthiness of an optional string: \<^verbatim>\<open>undefined\<close> and the empty string are falsy.\<close>

fun truthy :: "string option \<Rightarrow> bool" where
  "truthy None = False"
| "truthy (Some s) = (s \<noteq> [])"

text \<open>\<^verbatim>\<open>x || null\<close> on an optional string.\<close>

definition or_null :: "string option \<Rightarrow> string option" where
  "or_null x = (if truthy x then x else None)"

text \<open>\<^verbatim>\<open>result[0]\<close>: the first row, \<^verbatim>\<open>undefined\<close> when there is none.\<close>

fun first_row :: "'a list \<Rightarrow> 'a option" where
  "first_row [] = None"
| "first_row (x # xs) = Some x"

text \<open>The quote character, for SQL text that ends in a quoted literal.\<close>

definition quote :: string where
  "quote = [CHR 0x27]"

section \<open>The database\<close>

text \<open>
  The database driver (\<^verbatim>\<open>sql\<close> from \<^verbatim>\<open>@/lib/db\<close>) is outside the repository. A statement
  is its SQL text and its list of positional parameters; a tagged template
  \<^verbatim>\<open>sql`... ${x} ...`\<close> sends each interpolated value as a parameter and \<^verbatim>\<open>$n\<close> in its
  place, \<^verbatim>\<open>sql.unsafe(text, values)\<close> sends the text as it is. The world records every
  statement sent, so that "no data access" is the statement log not growing.

  A statement may be rejected by the database (connection loss, constraint, syntax): the
  field \<open>db_faults\<close> foretells, statement by statement, which of the next ones are
  rejected (\<open>True\<close>); when the list is exhausted every statement is executed. A rejected
  statement changes no row and makes the \<^verbatim>\<open>await\<close> throw.

  The world also holds what the platform decides and no operation changes: the two
  case foldings, and \<open>tie_order\<close>, the order in which the database returns rows that
  an \<^verbatim>\<open>ORDER BY\<close> leaves equal (SQL leaves that order open; any order among such rows
  is the order by some \<open>tie_order\<close>).
\<close>

datatype failure = Unauthorized | PersistenceFailure

datatype sqlval = SText string | SNull

type_synonym statement = "string \<times> sqlval list"

record world =
  session :: "User option"
  users :: "User list"
  sent :: "statement list"
  db_faults :: "bool list"
  toLowerCase :: "string \<Rightarrow> string"
  sql_LOWER :: "string \<Rightarrow> string"
  tie_order :: "User \<Rightarrow> nat"

type_synonym 'a action = "world \<Rightarrow> (failure + 'a) \<times> world"

definition resolve :: "'a \<Rightarrow> 'a action" where
  "resolve v w = (Inr v, w)"

definition reject :: "failure \<Rightarrow> 'a action" where
  "reject e w = (Inl e, w)"

text \<open>\<^verbatim>\<open>const x = await m; k x\<close>: a rejection of \<open>m\<close> skips the rest.\<close>

definition await :: "'a action \<Rightarrow> ('a \<Rightarrow> 'b action) \<Rightarrow> 'b action" where
  "await m k w = (case m w of (Inl e, w') \<Rightarrow> (Inl e, w') | (Inr x, w') \<Rightarrow> k x w')"

text \<open>\<^verbatim>\<open>try { body } catch (err) { console.error(...); return handler }\<close>.\<close>

definition try_catch :: "'a action \<Rightarrow> (failure \<Rightarrow> 'a) \<Rightarrow> 'a action" where
  "try_catch body handler w =
     (case body w of (Inl e, w') \<Rightarrow> (Inr (handler e), w') | (Inr r, w') \<Rightarrow> (Inr r, w'))"

text \<open>
  Sending one statement: it is logged, the next fault flag is consumed, and unless the
  statement is rejected its meaning \<open>sem\<close> is applied to the table.
\<close>

definition sql :: "statement \<Rightarrow> (User list \<Rightarrow> 'a \<times> User list) \<Rightarrow> 'a action" where
  "sql st sem w =
     (let w1 = w\<lparr>sent := sent w @ [st], db_faults := tl (db_faults w)\<rparr>
      in if db_faults w \<noteq> [] \<and> hd (db_faults w) then (Inl PersistenceFailure, w1)
         else (case sem (users w) of (r, us) \<Rightarrow> (Inr r, w1\<lparr>users := us\<rparr>)))"

text \<open>
  Between a world and the world after an operation, a statement that the operation sent
  was rejected: one of the fault flags that its statements consumed is \<open>True\<close>.
\<close>

definition rejected :: "world \<Rightarrow> world \<Rightarrow> bool" where
  "rejected w w' = (True \<in> set (take (length (sent w') - length (sent w)) (db_faults w)))"

text \<open>The meaning of the four kinds of statement on the table \<^verbatim>\<open>users\<close>.\<close>

definition select_where :: "(User \<Rightarrow> bool) \<Rightarrow> User list \<Rightarrow> User list \<times> User list" where
  "select_where P us = (filter P us, us)"

definition update_where ::
  "(User \<Rightarrow> bool) \<Rightarrow> (User \<Rightarrow> User) \<Rightarrow> User list \<Rightarrow> User list \<times> User list" where
  "update_where P f us = (map f (filter P us), map (\<lambda>u. if P u then f u else u) us)"

definition delete_where :: "(User \<Rightarrow> bool) \<Rightarrow> User list \<Rightarrow> unit \<times> User list" where
  "delete_where P us = ((), filter (\<lambda>u. \<not> P u) us)"

definition insert_row :: "User \<Rightarrow> User list \<Rightarrow> User list \<times> User list" where
  "insert_row r us = ([r], us @ [r])"

text \<open>
  \<^verbatim>\<open>text LIKE pattern\<close> of PostgreSQL: \<^verbatim>\<open>%\<close> matches any run of characters, \<^verbatim>\<open>_\<close> any one
  character, a backslash makes the next pattern character literal. (A pattern that ends
  in a lone backslash is an error in PostgreSQL; the patterns built here end in
  \<^verbatim>\<open>%\<close>.) The first argument is the pattern.
\<close>

fun like :: "string \<Rightarrow> string \<Rightarrow> bool" where
  "like [] [] = True"
| "like [] (c # cs) = False"
| "like (p # ps) [] = (p = CHR ''%'' \<and> like ps [])"
| "like (p # ps) (c # cs) =
     (if p = CHR ''%'' then like ps (c # cs) \<or> like (p # ps) cs
      else if p = CHR ''_'' then like ps cs
      else if p = CHR 0x5C then (case ps of [] \<Rightarrow> False | q # qs \<Rightarrow> q = c \<and> like qs cs)
      else p = c \<and> like ps cs)"

text \<open>
  A nullable column under \<^verbatim>\<open>LOWER(col) LIKE pattern\<close>: \<^verbatim>\<open>NULL\<close> never matches. The first
  argument is the \<^verbatim>\<open>LOWER\<close> of the database.
\<close>

fun like_nullable :: "(string \<Rightarrow> string) \<Rightarrow> string \<Rightarrow> string option \<Rightarrow> bool" where
  "like_nullable lower pat None = False"
| "like_nullable lower pat (Some s) = like pat (lower s)"

text \<open>
  \<^verbatim>\<open>ORDER BY created_at DESC\<close>: the rows by descending \<^verbatim>\<open>created_at\<close>, and rows with the
  same \<^verbatim>\<open>created_at\<close> in the order \<open>tie\<close> that the database happens to give them (the
  sort by \<^verbatim>\<open>created_at\<close> is stable, so it keeps the order of the sort by \<open>tie\<close> among
  equal rows).
\<close>

definition order_by_created_at_desc :: "(User \<Rightarrow> nat) \<Rightarrow> User list \<Rightarrow> User list" where
  "order_by_created_at_desc tie us = rev (sort_key created_at (sort_key tie us))"

section \<open>Session and role gate\<close>

text \<open>
  Modelled from the spec: \<^verbatim>\<open>getSession\<close> and \<^verbatim>\<open>requireRole\<close> are imported from
  \<^verbatim>\<open>@/lib/auth\<close>, which is not among the sources. Section 6: the session resolver returns
  \<^verbatim>\<open>{ user | null }\<close>; section 4.1: the gate verifies that a caller exists and holds one of
  the allowed roles, and fails with an Unauthorized error otherwise.
\<close>

definition getSession :: "User option action" where
  "getSession w = (Inr (session w), w)"

definition requireRole :: "UserRole list \<Rightarrow> User action" where
  "requireRole roles =
     await getSession (\<lambda>caller.
       case caller of
         None \<Rightarrow> reject Unauthorized
       | Some u \<Rightarrow> if role u \<in> set roles then resolve u else reject Unauthorized)"

section \<open>Password hashing\<close>

text \<open>
  \<^verbatim>\<open>crypto.createHash("sha256").update(password).digest("hex")\<close>: the digest function of
  the platform is a parameter.
\<close>

definition hashPassword :: "(string \<Rightarrow> string) \<Rightarrow> string \<Rightarrow> string" where
  "hashPassword sha256_hex password = sha256_hex password"

section \<open>Results of the actions\<close>

text \<open>
  \<^verbatim>\<open>{ error }\<close> and \<^verbatim>\<open>{ user, error }\<close>; \<open>None\<close> is \<^verbatim>\<open>null\<close> (or \<^verbatim>\<open>undefined\<close>, for
  \<^verbatim>\<open>result[0]\<close> of an empty result).
\<close>

record error_result =
  error :: "string option"

record user_result = error_result +
  user :: "User option"

text \<open>The row of aggregates that \<^verbatim>\<open>getUserStats\<close> returns.\<close>

record stats =
  total_users :: nat
  students :: nat
  faculty :: nat
  librarians :: nat
  admins :: nat
  active_users :: nat

definition count_where :: "(User \<Rightarrow> bool) \<Rightarrow> User list \<Rightarrow> nat" where
  "count_where P us = length (filter P us)"

section \<open>Listing users\<close>

text \<open>
  \<^verbatim>\<open>getUsers\<close> of \<^verbatim>\<open>part_001\<close>: the conditions hold placeholders and the values travel in
  the parameter list. \<^verbatim>\<open>if (role)\<close> holds for every defined role (the four role strings
  are non-empty), \<^verbatim>\<open>if (search)\<close> for a defined, non-empty string. The first argument
  \<open>toLower\<close> of the query builders is the \<^verbatim>\<open>toLowerCase\<close> of the runtime.
\<close>

definition getUsers_query_param ::
  "(string \<Rightarrow> string) \<Rightarrow> UserRole option \<Rightarrow> string option \<Rightarrow> statement" where
  "getUsers_query_param toLower role_arg search =
     (let conditions0 = [''status != 'inactive'' @ quote];
          values0 = [];
          (conditions1, values1) =
            (case role_arg of
               None \<Rightarrow> (conditions0, values0)
             | Some r \<Rightarrow>
                 (let values = values0 @ [SText (role_text r)]
                  in (conditions0 @ [''role = $'' @ show_nat (length values)], values)));
          (conditions2, values2) =
            (case search of
               None \<Rightarrow> (conditions1, values1)
             | Some s \<Rightarrow>
                 if s = [] then (conditions1, values1)
                 else
                   (let searchPattern = ''%'' @ toLower s @ ''%'';
                        values = values1 @
                          [SText searchPattern, SText searchPattern, SText searchPattern]
                    in (conditions1 @
                          [''(LOWER(full_name) LIKE $'' @ show_nat (length values - 2) @
                           '' OR LOWER(email) LIKE $'' @ show_nat (length values - 1) @
                           '' OR LOWER(university_id) LIKE $'' @ show_nat (length values) @
                           '')''],
                        values)))
      in (''SELECT * FROM users WHERE '' @ join '' AND '' conditions2 @
          '' ORDER BY created_at DESC'', values2))"

text \<open>
  The three \<^verbatim>\<open>LIKE\<close> conditions of the search, joined by \<^verbatim>\<open>OR\<close>; \<open>LOWER\<close> is the folding
  of the database.
\<close>

definition matches_search :: "(string \<Rightarrow> string) \<Rightarrow> string \<Rightarrow> User \<Rightarrow> bool" where
  "matches_search LOWER pat u =
     (like pat (LOWER (full_name u)) \<or> like pat (LOWER (email u)) \<or>
      like_nullable LOWER pat (university_id u))"

text \<open>
  The \<^verbatim>\<open>WHERE\<close> clause of the listing, read with its parameters: the pattern is folded
  by the runtime before it is sent, the columns by the database.
\<close>

definition getUsers_where ::
  "(string \<Rightarrow> string) \<Rightarrow> (string \<Rightarrow> string) \<Rightarrow> UserRole option \<Rightarrow> string option \<Rightarrow>
   User \<Rightarrow> bool" where
  "getUsers_where toLower LOWER role_arg search u =
     (status u \<noteq> Inactive \<and>
      (case role_arg of None \<Rightarrow> True | Some r \<Rightarrow> role_text (role u) = role_text r) \<and>
      (case search of
         None \<Rightarrow> True
       | Some s \<Rightarrow>
           if s = [] then True else matches_search LOWER (''%'' @ toLower s @ ''%'') u))"

definition select_listing ::
  "(User \<Rightarrow> nat) \<Rightarrow> (User \<Rightarrow> bool) \<Rightarrow> User list \<Rightarrow> User list \<times> User list" where
  "select_listing tie P us = (order_by_created_at_desc tie (filter P us), us)"

definition getUsers_param :: "UserRole option \<Rightarrow> string option \<Rightarrow> User list action" where
  "getUsers_param role_arg search w =
     await (requireRole [Admin]) (\<lambda>_.
       sql (getUsers_query_param (toLowerCase w) role_arg search)
           (select_listing (tie_order w)
              (getUsers_where (toLowerCase w) (sql_LOWER w) role_arg search))) w"

text \<open>
  \<^verbatim>\<open>getUsers\<close> of \<^verbatim>\<open>user-actions.ts\<close>: the role and the lower-cased search string are
  interpolated into the text, which goes to \<^verbatim>\<open>sql.unsafe(query)\<close> without parameters.
  What the database makes of a text that holds caller input is the parameter
  \<open>raw_select\<close>.
\<close>

definition getUsers_query_interp ::
  "(string \<Rightarrow> string) \<Rightarrow> UserRole option \<Rightarrow> string option \<Rightarrow> statement" where
  "getUsers_query_interp toLower role_arg search =
     (let query0 = ''SELECT * FROM users WHERE status != 'inactive'' @ quote;
          query1 =
            (case role_arg of
               None \<Rightarrow> query0
             | Some r \<Rightarrow> query0 @ '' AND role = '' @ quote @ role_text r @ quote);
          query2 =
            (case search of
               None \<Rightarrow> query1
             | Some x \<Rightarrow>
                 if x = [] then query1
                 else
                   (let s = toLower x
                    in query1 @ '' AND (LOWER(full_name) LIKE '%'' @ s @
                         ''%' OR LOWER(email) LIKE '%'' @ s @
                         ''%' OR LOWER(university_id) LIKE '%'' @ s @ ''%')''))
      in (query2 @ '' ORDER BY created_at DESC'', []))"

definition getUsers_interp ::
  "(string \<Rightarrow> User list \<Rightarrow> User list) \<Rightarrow> UserRole option \<Rightarrow> string option \<Rightarrow> User list action"
  where
  "getUsers_interp raw_select role_arg search w =
     await (requireRole [Admin]) (\<lambda>_.
       sql (getUsers_query_interp (toLowerCase w) role_arg search)
           (\<lambda>us. (raw_select (fst (getUsers_query_interp (toLowerCase w) role_arg search)) us,
                  us))) w"

section \<open>Reading one user, the session user, the statistics\<close>

definition getUserById :: "string \<Rightarrow> User option action" where
  "getUserById i =
     await (sql (''SELECT * FROM users WHERE id = $1'', [SText i])
                (select_where (\<lambda>u. user_id u = i)))
       (\<lambda>result. resolve (if length result > 0 then first_row result else None))"


text \<open>
  The two statistics statements have no parameters. (In every statement text below,
  line breaks and indentation of the template are written as single spaces.)
\<close>

definition getUserStats_active :: "stats option action" where
  "getUserStats_active =
     await (sql (''SELECT COUNT(*) FILTER (WHERE status != 'inactive') AS total_users, '' @
                 ''COUNT(*) FILTER (WHERE role = 'student' AND status != 'inactive') AS students, '' @
                 ''COUNT(*) FILTER (WHERE role = 'faculty' AND status != 'inactive') AS faculty, '' @
                 ''COUNT(*) FILTER (WHERE role = 'librarian' AND status != 'inactive') AS librarians, '' @
                 ''COUNT(*) FILTER (WHERE role = 'admin' AND status != 'inactive') AS admins, '' @
                 ''COUNT(*) FILTER (WHERE status = 'active') AS active_users FROM users'', [])
                (\<lambda>us. ([\<lparr>total_users = count_where (\<lambda>u. status u \<noteq> Inactive) us,
                          students = count_where (\<lambda>u. role u = Student \<and> status u \<noteq> Inactive) us,
                          faculty = count_where (\<lambda>u. role u = Faculty \<and> status u \<noteq> Inactive) us,
                          librarians = count_where (\<lambda>u. role u = Librarian \<and> status u \<noteq> Inactive) us,
                          admins = count_where (\<lambda>u. role u = Admin \<and> status u \<noteq> Inactive) us,
                          active_users = count_where (\<lambda>u. status u = Active) us\<rparr>], us)))
       (\<lambda>stats. resolve (first_row stats))"

definition getUserStats_all :: "stats option action" where
  "getUserStats_all =
     await (sql (''SELECT COUNT(*) AS total_users, '' @
                 ''COUNT(*) FILTER (WHERE role = 'student') AS students, '' @
                 ''COUNT(*) FILTER (WHERE role = 'faculty') AS faculty, '' @
                 ''COUNT(*) FILTER (WHERE role = 'librarian') AS librarians, '' @
                 ''COUNT(*) FILTER (WHERE role = 'admin') AS admins, '' @
                 ''COUNT(*) FILTER (WHERE status = 'active') AS active_users FROM users'', [])
                (\<lambda>us. ([\<lparr>total_users = count_where (\<lambda>u. True) us,
                          students = count_where (\<lambda>u. role u = Student) us,
                          faculty = count_where (\<lambda>u. role u = Faculty) us,
                          librarians = count_where (\<lambda>u. role u = Librarian) us,
                          admins = count_where (\<lambda>u. role u = Admin) us,
                          active_users = count_where (\<lambda>u. status u = Active) us\<rparr>], us)))
       (\<lambda>stats. resolve (first_row stats))"

section \<open>Creating a user\<close>

text \<open>The argument object of \<^verbatim>\<open>createUser\<close>; an optional field is \<open>None\<close> when absent.\<close>

record new_user =
  new_email :: string
  new_password :: string
  new_full_name :: string
  new_role :: UserRole
  new_university_id :: "string option"
  new_university_name :: "string option"
  new_department :: "string option"
  new_year_level :: "string option"
  new_course :: "string option"

definition sql_opt :: "string option \<Rightarrow> sqlval" where
  "sql_opt x = (case x of None \<Rightarrow> SNull | Some s \<Rightarrow> SText s)"

text \<open>
  The \<^verbatim>\<open>INSERT\<close> names nine columns. The other columns of the new row (\<^verbatim>\<open>id\<close>,
  \<^verbatim>\<open>status\<close>, \<^verbatim>\<open>phone\<close>, \<^verbatim>\<open>avatar_url\<close>, \<^verbatim>\<open>created_at\<close>) get the defaults of the table,
  whose schema is not among the sources: they are taken from the parameter \<open>defaults\<close>.
\<close>

definition createUser :: "(string \<Rightarrow> string) \<Rightarrow> User \<Rightarrow> new_user \<Rightarrow> user_result action" where
  "createUser sha256_hex defaults data =
     try_catch
       (await (requireRole [Admin]) (\<lambda>_.
        await (sql (''SELECT id FROM users WHERE email = $1'', [SText (new_email data)])
                   (select_where (\<lambda>u. email u = new_email data)))
          (\<lambda>exists.
             if length exists > 0
             then resolve \<lparr>error = Some ''Email already exists'', user = None\<rparr>
             else
               (let passwordHash = hashPassword sha256_hex (new_password data)
                in await
                     (sql (''INSERT INTO users ( email, password_hash, full_name, role, '' @
                           ''university_id, university_name, department, year_level, course ) '' @
                           ''VALUES ( $1, $2, $3, $4, $5, $6, $7, $8, $9 ) RETURNING *'',
                           [SText (new_email data), SText passwordHash,
                            SText (new_full_name data), SText (role_text (new_role data)),
                            sql_opt (or_null (new_university_id data)),
                            sql_opt (or_null (new_university_name data)),
                            sql_opt (or_null (new_department data)),
                            sql_opt (or_null (new_year_level data)),
                            sql_opt (or_null (new_course data))])
                          (insert_row
                             (defaults\<lparr>email := new_email data,
                                       password_hash := passwordHash,
                                       full_name := new_full_name data,
                                       role := new_role data,
                                       university_id := or_null (new_university_id data),
                                       university_name := or_null (new_university_name data),
                                       department := or_null (new_department data),
                                       year_level := or_null (new_year_level data),
                                       course := or_null (new_course data)\<rparr>)))
                     (\<lambda>result. resolve \<lparr>error = None, user = first_row result\<rparr>)))))
       (\<lambda>err. \<lparr>error = Some ''Failed to create user'', user = None\<rparr>)"

section \<open>Partial update of a user\<close>

text \<open>
  The payload of \<^verbatim>\<open>updateUser\<close> is an object whose keys are among ten column names;
  \<^verbatim>\<open>Object.entries\<close> walks it in the order the caller built it. An entry is its key with
  its value, \<open>None\<close> for \<^verbatim>\<open>undefined\<close>; the payload is the list of its entries. An
  object has each key once, so the entry lists that stand for a payload have pairwise
  different keys; on a list that repeats a key the later entry wins in \<open>updateUser\<close>.
\<close>

datatype entry =
    E_full_name "string option"
  | E_role "UserRole option"
  | E_status "UserStatus option"
  | E_university_id "string option"
  | E_university_name "string option"
  | E_department "string option"
  | E_phone "string option"
  | E_avatar_url "string option"
  | E_year_level "string option"
  | E_course "string option"

fun entry_key :: "entry \<Rightarrow> string" where
  "entry_key (E_full_name v) = ''full_name''"
| "entry_key (E_role v) = ''role''"
| "entry_key (E_status v) = ''status''"
| "entry_key (E_university_id v) = ''university_id''"
| "entry_key (E_university_name v) = ''university_name''"
| "entry_key (E_department v) = ''department''"
| "entry_key (E_phone v) = ''phone''"
| "entry_key (E_avatar_url v) = ''avatar_url''"
| "entry_key (E_year_level v) = ''year_level''"
| "entry_key (E_course v) = ''course''"

fun entry_value :: "entry \<Rightarrow> sqlval option" where
  "entry_value (E_full_name v) = map_option SText v"
| "entry_value (E_role v) = map_option (\<lambda>r. SText (role_text r)) v"
| "entry_value (E_status v) = map_option (\<lambda>s. SText (status_text s)) v"
| "entry_value (E_university_id v) = map_option SText v"
| "entry_value (E_university_name v) = map_option SText v"
| "entry_value (E_department v) = map_option SText v"
| "entry_value (E_phone v) = map_option SText v"
| "entry_value (E_avatar_url v) = map_option SText v"
| "entry_value (E_year_level v) = map_option SText v"
| "entry_value (E_course v) = map_option SText v"

text \<open>What \<^verbatim>\<open>SET key = value\<close> does to a row; an undefined entry is not in the statement.\<close>

fun entry_assign :: "entry \<Rightarrow> User \<Rightarrow> User" where
  "entry_assign (E_full_name (Some v)) u = u\<lparr>full_name := v\<rparr>"
| "entry_assign (E_role (Some v)) u = u\<lparr>role := v\<rparr>"
| "entry_assign (E_status (Some v)) u = u\<lparr>status := v\<rparr>"
| "entry_assign (E_university_id (Some v)) u = u\<lparr>university_id := Some v\<rparr>"
| "entry_assign (E_university_name (Some v)) u = u\<lparr>university_name := Some v\<rparr>"
| "entry_assign (E_department (Some v)) u = u\<lparr>department := Some v\<rparr>"
| "entry_assign (E_phone (Some v)) u = u\<lparr>phone := Some v\<rparr>"
| "entry_assign (E_avatar_url (Some v)) u = u\<lparr>avatar_url := Some v\<rparr>"
| "entry_assign (E_year_level (Some v)) u = u\<lparr>year_level := Some v\<rparr>"
| "entry_assign (E_course (Some v)) u = u\<lparr>course := Some v\<rparr>"
| "entry_assign e u = u"

text \<open>
  The \<^verbatim>\<open>forEach\<close> over the entries, with the arrays \<^verbatim>\<open>updates\<close> and \<^verbatim>\<open>values\<close> as
  accumulators.
\<close>

fun collect_updates ::
  "entry list \<Rightarrow> string list \<times> sqlval list \<Rightarrow> string list \<times> sqlval list" where
  "collect_updates [] acc = acc"
| "collect_updates (e # es) (updates, values) =
     (case entry_value e of
        None \<Rightarrow> collect_updates es (updates, values)
      | Some v \<Rightarrow>
          collect_updates es
            (updates @ [entry_key e @ '' = $'' @ show_nat (length values + 1)], values @ [v]))"

definition updateUser_query :: "string \<Rightarrow> string list \<Rightarrow> sqlval list \<Rightarrow> statement" where
  "updateUser_query i updates values0 =
     (let values = values0 @ [SText i]
      in (''UPDATE users SET '' @ join '', '' updates @ '' WHERE id = $'' @
          show_nat (length values) @ '' RETURNING *'', values))"

definition updateUser :: "string \<Rightarrow> entry list \<Rightarrow> user_result action" where
  "updateUser i data =
     try_catch
       (await (requireRole [Admin]) (\<lambda>_.
          case collect_updates data ([], []) of
            (updates, values) \<Rightarrow>
              if length updates = 0
              then resolve \<lparr>error = Some ''No updates provided'', user = None\<rparr>
              else
                await (sql (updateUser_query i updates values)
                           (update_where (\<lambda>u. user_id u = i)
                              (\<lambda>u. fold entry_assign data u)))
                  (\<lambda>result. resolve \<lparr>error = None, user = first_row result\<rparr>)))
       (\<lambda>err. \<lparr>error = Some ''Failed to update user'', user = None\<rparr>)"

section \<open>Role, status, deletion\<close>

definition updateUserRole :: "string \<Rightarrow> UserRole \<Rightarrow> error_result action" where
  "updateUserRole i r =
     try_catch
       (await (requireRole [Admin]) (\<lambda>_.
        await (sql (''UPDATE users SET role = $1 WHERE id = $2'', [SText (role_text r), SText i])
                   (update_where (\<lambda>u. user_id u = i) (\<lambda>u. u\<lparr>role := r\<rparr>)))
          (\<lambda>_. resolve \<lparr>error = None\<rparr>)))
       (\<lambda>err. \<lparr>error = Some ''Failed to update role''\<rparr>)"

definition updateUserStatus :: "string \<Rightarrow> UserStatus \<Rightarrow> error_result action" where
  "updateUserStatus i s =
     try_catch
       (await (requireRole [Admin]) (\<lambda>_.
        await (sql (''UPDATE users SET status = $1 WHERE id = $2'',
                    [SText (status_text s), SText i])
                   (update_where (\<lambda>u. user_id u = i) (\<lambda>u. u\<lparr>status := s\<rparr>)))
          (\<lambda>_. resolve \<lparr>error = None\<rparr>)))
       (\<lambda>err. \<lparr>error = Some ''Failed to update status''\<rparr>)"

text \<open>\<^verbatim>\<open>deleteUser\<close> of \<^verbatim>\<open>part_001\<close>: the row stays, its status becomes inactive.\<close>

definition deleteUser_soft :: "string \<Rightarrow> error_result action" where
  "deleteUser_soft i =
     try_catch
       (await (requireRole [Admin]) (\<lambda>_.
        await (sql (''UPDATE users SET status = 'inactive' WHERE id = $1'', [SText i])
                   (update_where (\<lambda>u. user_id u = i) (\<lambda>u. u\<lparr>status := Inactive\<rparr>)))
          (\<lambda>_. resolve \<lparr>error = None\<rparr>)))
       (\<lambda>err. \<lparr>error = Some ''Failed to delete user''\<rparr>)"

text \<open>\<^verbatim>\<open>deleteUser\<close> of \<^verbatim>\<open>user-actions.ts\<close>: the row is removed.\<close>

definition deleteUser_hard :: "string \<Rightarrow> error_result action" where
  "deleteUser_hard i =
     try_catch
       (await (requireRole [Admin]) (\<lambda>_.
        await (sql (''DELETE FROM users WHERE id = $1'', [SText i])
                   (delete_where (\<lambda>u. user_id u = i)))
          (\<lambda>_. resolve \<lparr>error = None\<rparr>)))
       (\<lambda>err. \<lparr>error = Some ''Failed to delete user''\<rparr>)"

section \<open>Self-service profile and password\<close>

text \<open>
  The tail of \<^verbatim>\<open>updateCurrentUserProfile\<close>, from \<^verbatim>\<open>if (updates.length === 0)\<close> on, which
  both branches of \<^verbatim>\<open>if (data.email)\<close> reach; \<open>assign\<close> is what the collected \<^verbatim>\<open>SET\<close>
  list does to a row.
\<close>

definition profile_write ::
  "User \<Rightarrow> string list \<Rightarrow> sqlval list \<Rightarrow> (User \<Rightarrow> User) \<Rightarrow> user_result action" where
  "profile_write caller updates values0 assign =
     (if length updates = 0
      then resolve \<lparr>error = Some ''No updates provided'', user = None\<rparr>
      else
        (let values = values0 @ [SText (user_id caller)]
         in await (sql (''UPDATE users SET '' @ join '', '' updates @ '' WHERE id = $'' @
                        show_nat (length values) @ '' RETURNING *'', values)
                       (update_where (\<lambda>u. user_id u = user_id caller) assign))
              (\<lambda>result. resolve \<lparr>error = None, user = first_row result\<rparr>)))"

definition updateCurrentUserProfile ::
  "string option \<Rightarrow> string option \<Rightarrow> user_result action" where
  "updateCurrentUserProfile data_full_name data_email =
     try_catch
       (await getSession (\<lambda>caller.
          case caller of
            None \<Rightarrow> resolve \<lparr>error = Some ''Not authenticated'', user = None\<rparr>
          | Some me \<Rightarrow>
              (case (case data_full_name of
                       None \<Rightarrow> ([], [], (\<lambda>u. u))
                     | Some n \<Rightarrow>
                         if n = [] then ([], [], (\<lambda>u. u))
                         else ([''full_name = $1''], [SText n], (\<lambda>u. u\<lparr>full_name := n\<rparr>))) of
                 (updates, values, assign) \<Rightarrow>
                   (case data_email of
                      None \<Rightarrow> profile_write me updates values assign
                    | Some e \<Rightarrow>
                        if e = [] then profile_write me updates values assign
                        else
                          await (sql (''SELECT id FROM users WHERE email = $1 AND id != $2'',
                                      [SText e, SText (user_id me)])
                                     (select_where (\<lambda>u. email u = e \<and> user_id u \<noteq> user_id me)))
                            (\<lambda>exists.
                               if length exists > 0
                               then resolve \<lparr>error = Some ''Email already in use'', user = None\<rparr>
                               else profile_write me
                                      (updates @ [''email = $'' @ show_nat (length values + 1)])
                                      (values @ [SText e])
                                      (\<lambda>u. (assign u)\<lparr>email := e\<rparr>))))))
       (\<lambda>err. \<lparr>error = Some ''Failed to update profile'', user = None\<rparr>)"

definition updateCurrentUserPassword ::
  "(string \<Rightarrow> string) \<Rightarrow> string \<Rightarrow> string \<Rightarrow> error_result action" where
  "updateCurrentUserPassword sha256_hex currentPassword newPassword =
     try_catch
       (await getSession (\<lambda>caller.
          case caller of
            None \<Rightarrow> resolve \<lparr>error = Some ''Not authenticated''\<rparr>
          | Some me \<Rightarrow>
              (let currentHash = hashPassword sha256_hex currentPassword
               in await (sql (''SELECT password_hash FROM users WHERE id = $1'',
                              [SText (user_id me)])
                             (select_where (\<lambda>u. user_id u = user_id me)))
                    (\<lambda>stored.
                       case first_row stored of
                         None \<Rightarrow> resolve \<lparr>error = Some ''Current password is incorrect''\<rparr>
                       | Some row \<Rightarrow>
                           if password_hash row \<noteq> currentHash
                           then resolve \<lparr>error = Some ''Current password is incorrect''\<rparr>
                           else
                             (let newHash = hashPassword sha256_hex newPassword
                              in await (sql (''UPDATE users SET password_hash = $1 WHERE id = $2'',
                                             [SText newHash, SText (user_id me)])
                                            (update_where (\<lambda>u. user_id u = user_id me)
                                               (\<lambda>u. u\<lparr>password_hash := newHash\<rparr>)))
                                   (\<lambda>_. resolve \<lparr>error = None\<rparr>))))))
       (\<lambda>err. \<lparr>error = Some ''Failed to change password''\<rparr>)"

section \<open>The listing in the words of the specification\<close>



text \<open>A string in which no character is special to \<^verbatim>\<open>LIKE\<close>.\<close>

definition like_plain :: "string \<Rightarrow> bool" where
  "like_plain s = list_all (\<lambda>c. c \<noteq> CHR ''%'' \<and> c \<noteq> CHR ''_'' \<and> c \<noteq> CHR 0x5C) s"


section \<open>Uniqueness of emails\<close>



section \<open>Example states\<close>

definition alice :: User where
  "alice =
     \<lparr>user_id = ''1'', email = ''alice@x.org'', password_hash = ''#pw'',
      full_name = ''alice smith'', role = Student, status = Active,
      university_id = Some ''U-17'', university_name = None, department = None,
      year_level = None, course = None, phone = None, avatar_url = None, created_at = 5\<rparr>"

definition root :: User where
  "root =
     \<lparr>user_id = ''0'', email = ''root@x.org'', password_hash = ''#root'',
      full_name = ''Root'', role = Admin, status = Active,
      university_id = None, university_name = None, department = None,
      year_level = None, course = None, phone = None, avatar_url = None, created_at = 1\<rparr>"

text \<open>A signed-in student, and a signed-in administrator, over the same table.\<close>

definition student_world :: world where
  "student_world =
     \<lparr>session = Some alice, users = [root, alice], sent = [], db_faults = [],
      toLowerCase = ascii_lower, sql_LOWER = ascii_lower, tie_order = (\<lambda>u. 0)\<rparr>"

definition admin_world :: world where
  "admin_world =
     \<lparr>session = Some root, users = [root, alice], sent = [], db_faults = [],
      toLowerCase = ascii_lower, sql_LOWER = ascii_lower, tie_order = (\<lambda>u. 0)\<rparr>"

definition bob_data :: new_user where
  "bob_data =
     \<lparr>new_email = ''bob@x.org'', new_password = ''pw'', new_full_name = ''Bob'',
      new_role = Faculty, new_university_id = None, new_university_name = None,
      new_department = Some [], new_year_level = None, new_course = None\<rparr>"

text \<open>The column defaults of an insert: a new key, status active, a later timestamp.\<close>

definition fresh_row :: User where
  "fresh_row =
     \<lparr>user_id = ''2'', email = [], password_hash = [], full_name = [],
      role = Student, status = Active, university_id = None, university_name = None,
      department = None, year_level = None, course = None, phone = None,
      avatar_url = None, created_at = 9\<rparr>"

text \<open>A soft-deleted librarian, and a visitor without session over a table that holds her.\<close>

definition zoe :: User where
  "zoe =
     \<lparr>user_id = ''3'', email = ''zoe@x.org'', password_hash = ''#zoe'',
      full_name = ''Zoe'', role = Librarian, status = Inactive,
      university_id = None, university_name = None, department = None,
      year_level = None, course = None, phone = None, avatar_url = None, created_at = 3\<rparr>"

definition guest_world :: world where
  "guest_world =
     \<lparr>session = None, users = [root, alice, zoe], sent = [], db_faults = [],
      toLowerCase = ascii_lower, sql_LOWER = ascii_lower, tie_order = (\<lambda>u. 0)\<rparr>"





text \<open>
  An administrator over a database that rejects the next statement, and over one that
  accepts the next statement and rejects the one after it.
\<close>

definition faulty_world :: world where
  "faulty_world = admin_world\<lparr>db_faults := [True]\<rparr>"

definition late_fault_world :: world where
  "late_fault_world = admin_world\<lparr>db_faults := [False, True]\<rparr>"





section \<open>Basic facts about the gate and the handlers\<close>

lemma requireRole_denied:
  "(case session w of None \<Rightarrow> True | Some u \<Rightarrow> role u \<noteq> Admin) \<Longrightarrow>
   requireRole [Admin] w = (Inl Unauthorized, w)"
  by (auto simp add: requireRole_def await_def getSession_def reject_def resolve_def
           split: option.splits)

lemma requireRole_granted:
  "session w = Some u \<Longrightarrow> role u = Admin \<Longrightarrow> requireRole [Admin] w = (Inr u, w)"
  by (simp add: requireRole_def await_def getSession_def reject_def resolve_def)

lemma gate_rejects:
  assumes "case session w of None \<Rightarrow> True | Some u \<Rightarrow> role u \<noteq> Admin"
  shows "await (requireRole [Admin]) k w = (Inl Unauthorized, w)"
  using requireRole_denied [OF assms] by (simp add: await_def)

lemma gate_passes:
  assumes "session w = Some u" and "role u = Admin"
  shows "await (requireRole [Admin]) k w = k u w"
  using requireRole_granted [OF assms] by (simp add: await_def)

lemma try_catch_returns: "\<exists>r. fst (try_catch body handler w) = Inr r"
  by (cases "body w") (auto simp add: try_catch_def split: sum.splits)

lemma gate_caught:
  assumes "case session w of None \<Rightarrow> True | Some u \<Rightarrow> role u \<noteq> Admin"
  shows "try_catch (await (requireRole [Admin]) k) h w = (Inr (h Unauthorized), w)"
  by (simp add: try_catch_def gate_rejects [OF assms])

lemma sql_accepted:
  assumes "db_faults w = []"
  shows "sql st sem w =
           (Inr (fst (sem (users w))), w\<lparr>sent := sent w @ [st], users := snd (sem (users w))\<rparr>)"
  using assms by (cases "sem (users w)") (simp add: sql_def)

lemma first_row_filter: "first_row (filter P us) = find P us"
  by (induction us) auto

lemma find_distinct_key:
  "distinct (map user_id us) \<Longrightarrow> u \<in> set us \<Longrightarrow> find (\<lambda>x. user_id x = user_id u) us = Some u"
  by (induction us) (auto simp add: rev_image_eqI)

lemma getUserById_accepted:
  assumes "db_faults w = []"
  shows "getUserById i w =
           (Inr (find (\<lambda>u. user_id u = i) (users w)),
            w\<lparr>sent := sent w @ [(''SELECT * FROM users WHERE id = $1'', [SText i])]\<rparr>)"
proof -
  have "(if filter (\<lambda>u. user_id u = i) (users w) \<noteq> [] then first_row (filter (\<lambda>u. user_id u = i) (users w)) else None)
        = find (\<lambda>u. user_id u = i) (users w)"
    by (cases "filter (\<lambda>u. user_id u = i) (users w)") (simp_all flip: first_row_filter)
  then show ?thesis
    by (simp add: getUserById_def await_def sql_accepted [OF assms] select_where_def resolve_def)
qed

lemma update_where_absent:
  "\<forall>u\<in>set us. \<not> P u \<Longrightarrow> update_where P f us = ([], us)"
  by (simp add: update_where_def map_idI)

lemma delete_where_absent:
  "\<forall>u\<in>set us. \<not> P u \<Longrightarrow> delete_where P us = ((), us)"
  by (simp add: delete_where_def)

lemma collect_updates_empty_iff:
  "fst (collect_updates data (ups, vals)) = [] \<longleftrightarrow>
     ups = [] \<and> (\<forall>e\<in>set data. entry_value e = None)"
  by (induction data "(ups, vals)" arbitrary: ups vals rule: collect_updates.induct)
     (auto split: option.splits)

lemma await_sql_accepted:
  assumes "db_faults w = []"
  shows "await (sql st sem) k w =
           k (fst (sem (users w))) (w\<lparr>sent := sent w @ [st], users := snd (sem (users w))\<rparr>)"
  by (simp add: await_def sql_accepted [OF assms])

lemma first_row_select:
  "first_row (fst (select_where P us)) = find P us"
  by (simp add: select_where_def first_row_filter)

lemma set_order_by_created_at_desc [simp]:
  "set (order_by_created_at_desc tie us) = set us"
  by (simp add: order_by_created_at_desc_def)

lemma getUsers_param_accepted:
  assumes "session w = Some a" and "role a = Admin" and "db_faults w = []"
  shows "getUsers_param r s w =
           (Inr (order_by_created_at_desc (tie_order w)
                   (filter (getUsers_where (toLowerCase w) (sql_LOWER w) r s) (users w))),
            w\<lparr>sent := sent w @ [getUsers_query_param (toLowerCase w) r s]\<rparr>)"
  unfolding getUsers_param_def
  by (simp add: gate_passes [OF assms(1,2)] sql_accepted [OF assms(3)] select_listing_def)

lemma deleteUser_soft_accepted:
  assumes "session w = Some a" and "role a = Admin" and "db_faults w = []"
  shows "deleteUser_soft i w =
           (Inr \<lparr>error = None\<rparr>,
            w\<lparr>sent := sent w @ [(''UPDATE users SET status = 'inactive' WHERE id = $1'', [SText i])],
              users := map (\<lambda>u. if user_id u = i then u\<lparr>status := Inactive\<rparr> else u) (users w)\<rparr>)"
  unfolding deleteUser_soft_def
  by (simp add: try_catch_def gate_passes [OF assms(1,2)] await_sql_accepted [OF assms(3)]
        update_where_def resolve_def)

lemma soft_delete_other_rows:
  "i \<notin> user_id ` set us \<Longrightarrow>
   map (\<lambda>x. if user_id x = i then x\<lparr>status := Inactive\<rparr> else x) us = us"
  by (induction us) auto

lemma count_after_soft_delete:
  "distinct (map user_id us) \<Longrightarrow> u \<in> set us \<Longrightarrow> status u \<noteq> Inactive \<Longrightarrow>
   length (filter (\<lambda>x. status x \<noteq> Inactive)
             (map (\<lambda>x. if user_id x = user_id u then x\<lparr>status := Inactive\<rparr> else x) us)) + 1 =
   length (filter (\<lambda>x. status x \<noteq> Inactive) us)"
proof (induction us)
  case Nil
  then show ?case by simp
next
  case (Cons x xs)
  show ?case
  proof (cases "x = u")
    case True
    with Cons.prems have "user_id u \<notin> user_id ` set xs" by simp
    from soft_delete_other_rows [OF this] True Cons.prems(3) show ?thesis by simp
  next
    case False
    with Cons.prems have "u \<in> set xs" by simp
    moreover from this Cons.prems(1) have "user_id x \<noteq> user_id u" by auto
    ultimately show ?thesis using Cons by simp
  qed
qed

lemma find_after_soft_delete:
  "distinct (map user_id us) \<Longrightarrow> u \<in> set us \<Longrightarrow>
   find (\<lambda>x. user_id x = user_id u)
     (map (\<lambda>x. if user_id x = user_id u then x\<lparr>status := Inactive\<rparr> else x) us) =
   Some (u\<lparr>status := Inactive\<rparr>)"
proof (induction us)
  case Nil
  then show ?case by simp
next
  case (Cons x xs)
  show ?case
  proof (cases "x = u")
    case True
    then show ?thesis by simp
  next
    case False
    with Cons.prems have "u \<in> set xs" by simp
    moreover from this Cons.prems(1) have "user_id x \<noteq> user_id u" by auto
    ultimately show ?thesis using Cons by simp
  qed
qed





lemma ascii_lower_char_special:
  "ascii_lower_char c = CHR ''%'' \<longleftrightarrow> c = CHR ''%''"
  "ascii_lower_char c = CHR ''_'' \<longleftrightarrow> c = CHR ''_''"
  "ascii_lower_char c = CHR 0x5C \<longleftrightarrow> c = CHR 0x5C"
  by (auto simp add: ascii_lower_char_def split: if_splits)

lemma like_plain_lower: "like_plain s \<Longrightarrow> like_plain (ascii_lower s)"
  by (induction s) (simp_all add: like_plain_def ascii_lower_def ascii_lower_char_special)






lemma mset_order_by_created_at_desc [simp]:
  "mset (order_by_created_at_desc tie us) = mset us"
  by (simp add: order_by_created_at_desc_def)

section \<open>What each operation may do to the table\<close>

lemmas action_defs =
  try_catch_def await_def requireRole_def getSession_def sql_def resolve_def reject_def Let_def






















section \<open>When the generic failure result is returned\<close>

lemma gated_single_outcome:
  fixes generic :: "'r"
  assumes "\<And>w'. ok w' \<noteq> generic"
  shows "fst (try_catch (await (requireRole [Admin]) (\<lambda>_. await (sql st sem) (\<lambda>x. resolve (ok x))))
               (\<lambda>err. generic) w) = Inr generic \<longleftrightarrow>
         (case session w of None \<Rightarrow> True | Some u \<Rightarrow> role u \<noteq> Admin) \<or>
         rejected w (snd (try_catch (await (requireRole [Admin])
                       (\<lambda>_. await (sql st sem) (\<lambda>x. resolve (ok x)))) (\<lambda>err. generic) w))"
  using assms
  by (cases "db_faults w")
     (auto simp add: action_defs rejected_def split: option.splits prod.splits)


lemma role_outcome:
  "fst (updateUserRole i r w) = Inr \<lparr>error = Some ''Failed to update role''\<rparr> \<longleftrightarrow>
     (case session w of None \<Rightarrow> True | Some u \<Rightarrow> role u \<noteq> Admin) \<or>
     rejected w (snd (updateUserRole i r w))"
  unfolding updateUserRole_def by (rule gated_single_outcome) simp

lemma status_outcome:
  "fst (updateUserStatus i s w) = Inr \<lparr>error = Some ''Failed to update status''\<rparr> \<longleftrightarrow>
     (case session w of None \<Rightarrow> True | Some u \<Rightarrow> role u \<noteq> Admin) \<or>
     rejected w (snd (updateUserStatus i s w))"
  unfolding updateUserStatus_def by (rule gated_single_outcome) simp

lemma soft_outcome:
  "fst (deleteUser_soft i w) = Inr \<lparr>error = Some ''Failed to delete user''\<rparr> \<longleftrightarrow>
     (case session w of None \<Rightarrow> True | Some u \<Rightarrow> role u \<noteq> Admin) \<or>
     rejected w (snd (deleteUser_soft i w))"
  unfolding deleteUser_soft_def by (rule gated_single_outcome) simp

lemma hard_outcome:
  "fst (deleteUser_hard i w) = Inr \<lparr>error = Some ''Failed to delete user''\<rparr> \<longleftrightarrow>
     (case session w of None \<Rightarrow> True | Some u \<Rightarrow> role u \<noteq> Admin) \<or>
     rejected w (snd (deleteUser_hard i w))"
  unfolding deleteUser_hard_def by (rule gated_single_outcome) simp

lemma updateUser_outcome:
  "fst (updateUser i es w) = Inr \<lparr>error = Some ''Failed to update user'', user = None\<rparr> \<longleftrightarrow>
     (case session w of None \<Rightarrow> True | Some u \<Rightarrow> role u \<noteq> Admin) \<or>
     rejected w (snd (updateUser i es w))"
  unfolding updateUser_def
  by (cases "db_faults w"; cases "collect_updates es ([], [])")
     (auto simp add: action_defs rejected_def update_where_def split: option.splits)

lemma createUser_outcome:
  "fst (createUser h dflt d w) = Inr \<lparr>error = Some ''Failed to create user'', user = None\<rparr> \<longleftrightarrow>
     (case session w of None \<Rightarrow> True | Some u \<Rightarrow> role u \<noteq> Admin) \<or>
     rejected w (snd (createUser h dflt d w))"
  unfolding createUser_def
  by (cases "db_faults w"; cases "tl (db_faults w)")
     (auto simp add: action_defs rejected_def select_where_def insert_row_def
        split: option.splits)

lemma password_outcome:
  "fst (updateCurrentUserPassword h cur new w) =
     Inr \<lparr>error = Some ''Failed to change password''\<rparr> \<longleftrightarrow>
     rejected w (snd (updateCurrentUserPassword h cur new w))"
  unfolding updateCurrentUserPassword_def
  by (cases "db_faults w"; cases "tl (db_faults w)")
     (auto simp add: action_defs rejected_def select_where_def update_where_def
        split: option.splits)


lemma profile_outcome:
  "fst (updateCurrentUserProfile n e w) =
     Inr \<lparr>error = Some ''Failed to update profile'', user = None\<rparr> \<longleftrightarrow>
     rejected w (snd (updateCurrentUserProfile n e w))"
  unfolding updateCurrentUserProfile_def profile_write_def
  by (cases "db_faults w"; cases "tl (db_faults w)"; cases n; cases e)
     (auto simp add: action_defs rejected_def select_where_def update_where_def
        split: option.splits)

section \<open>Creation stores the digest; every outcome of a password change\<close>

lemma createUser_accepted:
  assumes "session w = Some a" and "role a = Admin" and "db_faults w = []"
    and "new_email data \<notin> email ` set (users w)"
  shows "fst (createUser H dflt data w) =
           Inr \<lparr>error = None,
                user = Some (dflt\<lparr>email := new_email data,
                                 password_hash := hashPassword H (new_password data),
                                 full_name := new_full_name data,
                                 role := new_role data,
                                 university_id := or_null (new_university_id data),
                                 university_name := or_null (new_university_name data),
                                 department := or_null (new_department data),
                                 year_level := or_null (new_year_level data),
                                 course := or_null (new_course data)\<rparr>)\<rparr> \<and>
         users (snd (createUser H dflt data w)) =
           users w @
             [dflt\<lparr>email := new_email data,
                   password_hash := hashPassword H (new_password data),
                   full_name := new_full_name data,
                   role := new_role data,
                   university_id := or_null (new_university_id data),
                   university_name := or_null (new_university_name data),
                   department := or_null (new_department data),
                   year_level := or_null (new_year_level data),
                   course := or_null (new_course data)\<rparr>] \<and>
         session (snd (createUser H dflt data w)) = session w \<and>
         db_faults (snd (createUser H dflt data w)) = []"
proof -
  from assms(4) have none: "filter (\<lambda>u. email u = new_email data) (users w) = []"
    by (auto simp add: filter_empty_conv image_iff)
  show ?thesis
    unfolding createUser_def
    by (simp add: try_catch_def gate_passes [OF assms(1,2)] await_sql_accepted assms(3)
          select_where_def none insert_row_def resolve_def Let_def)
qed

lemma find_appended_key:
  "i \<notin> user_id ` set us \<Longrightarrow> user_id r = i \<Longrightarrow> find (\<lambda>u. user_id u = i) (us @ [r]) = Some r"
  by (induction us) auto

lemma password_no_session:
  "session w = None \<Longrightarrow>
   updateCurrentUserPassword H cur new w = (Inr \<lparr>error = Some ''Not authenticated''\<rparr>, w)"
  unfolding updateCurrentUserPassword_def
  by (simp add: try_catch_def await_def getSession_def resolve_def)

lemma password_outcomes:
  assumes "session w = Some me" and "db_faults w = []"
  shows "case find (\<lambda>u. user_id u = user_id me) (users w) of
           None \<Rightarrow>
             fst (updateCurrentUserPassword H cur new w) =
               Inr \<lparr>error = Some ''Current password is incorrect''\<rparr> \<and>
             users (snd (updateCurrentUserPassword H cur new w)) = users w
         | Some row \<Rightarrow>
             (fst (updateCurrentUserPassword H cur new w) = Inr \<lparr>error = None\<rparr>
                \<longleftrightarrow> hashPassword H cur = password_hash row) \<and>
             (hashPassword H cur = password_hash row \<longrightarrow>
                users (snd (updateCurrentUserPassword H cur new w)) =
                  map (\<lambda>u. if user_id u = user_id me
                            then u\<lparr>password_hash := hashPassword H new\<rparr> else u) (users w)) \<and>
             (hashPassword H cur \<noteq> password_hash row \<longrightarrow>
                fst (updateCurrentUserPassword H cur new w) =
                  Inr \<lparr>error = Some ''Current password is incorrect''\<rparr> \<and>
                users (snd (updateCurrentUserPassword H cur new w)) = users w)"
proof -
  note run = await_sql_accepted [OF assms(2)]
  have sel: "snd (select_where (\<lambda>u. user_id u = user_id me) (users w)) = users w"
    by (simp add: select_where_def)
  show ?thesis
  proof (cases "find (\<lambda>u. user_id u = user_id me) (users w)")
    case None
    then have "first_row (fst (select_where (\<lambda>u. user_id u = user_id me) (users w))) = None"
      by (simp add: first_row_select)
    then show ?thesis
      unfolding updateCurrentUserPassword_def using None
      by (simp add: try_catch_def await_def [of getSession] getSession_def assms(1) run sel
            resolve_def Let_def)
  next
    case (Some row)
    then have stored:
      "first_row (fst (select_where (\<lambda>u. user_id u = user_id me) (users w))) = Some row"
      by (simp add: first_row_select)
    show ?thesis
    proof (cases "hashPassword H cur = password_hash row")
      case True
      then show ?thesis
        unfolding updateCurrentUserPassword_def using Some assms(2)
        by (simp add: try_catch_def await_def [of getSession] getSession_def assms(1) run
              stored sel await_sql_accepted resolve_def Let_def update_where_def)
    next
      case False
      then show ?thesis
        unfolding updateCurrentUserPassword_def using Some
        by (simp add: try_catch_def await_def [of getSession] getSession_def assms(1) run
              stored sel resolve_def Let_def)
    qed
  qed
qed

section \<open>The role gate comes before any statement\<close>

text \<open>
  Claim C1. A caller without a session, or whose role is not admin, is stopped by the
  role gate in each admin-only operation (\<^verbatim>\<open>getUsers\<close>, \<^verbatim>\<open>createUser\<close>, \<^verbatim>\<open>updateUser\<close>,
  \<^verbatim>\<open>updateUserRole\<close>, \<^verbatim>\<open>updateUserStatus\<close>, \<^verbatim>\<open>deleteUser\<close>, in both versions of the
  file) before any statement is sent: the world after the call is the world before it
  (same table, same statement log), and the outcome carries no user data, being the
  Unauthorized rejection for \<^verbatim>\<open>getUsers\<close> and the handler's result without a user for
  the others.
\<close>

theorem admin_only_rejects_non_admin:
  assumes "case session w of None \<Rightarrow> True | Some u \<Rightarrow> role u \<noteq> Admin"
  shows "getUsers_param r s w = (Inl Unauthorized, w) \<and>
         getUsers_interp raw r s w = (Inl Unauthorized, w) \<and>
         createUser h dflt d w =
           (Inr \<lparr>error = Some ''Failed to create user'', user = None\<rparr>, w) \<and>
         updateUser i es w =
           (Inr \<lparr>error = Some ''Failed to update user'', user = None\<rparr>, w) \<and>
         updateUserRole i ro w = (Inr \<lparr>error = Some ''Failed to update role''\<rparr>, w) \<and>
         updateUserStatus i st w = (Inr \<lparr>error = Some ''Failed to update status''\<rparr>, w) \<and>
         deleteUser_soft i w = (Inr \<lparr>error = Some ''Failed to delete user''\<rparr>, w) \<and>
         deleteUser_hard i w = (Inr \<lparr>error = Some ''Failed to delete user''\<rparr>, w)"
proof -
  have rej: "\<And>k. await (requireRole [Admin]) k w = (Inl Unauthorized, w)"
    by (rule gate_rejects [OF assms])
  have caught:
    "\<And>k h. try_catch (await (requireRole [Admin]) k) h w = (Inr (h Unauthorized), w)"
    by (simp add: try_catch_def rej)
  show ?thesis
    unfolding getUsers_param_def getUsers_interp_def createUser_def updateUser_def
      updateUserRole_def updateUserStatus_def deleteUser_soft_def deleteUser_hard_def
    by (simp add: rej caught)
qed

theorem admin_only_rejects_non_admin_witness:
  "(case session student_world of None \<Rightarrow> True | Some u \<Rightarrow> role u \<noteq> Admin) \<and>
   getUsers_param None (Some ''a'') student_world = (Inl Unauthorized, student_world) \<and>
   getUsers_interp (\<lambda>t us. us) None (Some ''a'') student_world =
     (Inl Unauthorized, student_world) \<and>
   createUser (\<lambda>p. p) fresh_row bob_data student_world =
     (Inr \<lparr>error = Some ''Failed to create user'', user = None\<rparr>, student_world) \<and>
   updateUser ''0'' [E_role (Some Student)] student_world =
     (Inr \<lparr>error = Some ''Failed to update user'', user = None\<rparr>, student_world) \<and>
   updateUserRole ''0'' Student student_world =
     (Inr \<lparr>error = Some ''Failed to update role''\<rparr>, student_world) \<and>
   updateUserStatus ''0'' Suspended student_world =
     (Inr \<lparr>error = Some ''Failed to update status''\<rparr>, student_world) \<and>
   deleteUser_soft ''0'' student_world =
     (Inr \<lparr>error = Some ''Failed to delete user''\<rparr>, student_world) \<and>
   deleteUser_hard ''0'' student_world =
     (Inr \<lparr>error = Some ''Failed to delete user''\<rparr>, student_world)"
  using admin_only_rejects_non_admin
    [of student_world None "Some ''a''" "\<lambda>t us. us" "\<lambda>p. p" fresh_row bob_data
        "''0''" "[E_role (Some Student)]" Student Suspended]
  by (simp add: student_world_def alice_def)

section \<open>Failures are returned, not raised, by the operations with a handler\<close>

text \<open>
  Claim C4 says that the Unauthorized error of the role gate propagates out of every
  operation instead of being converted into a returned \<^verbatim>\<open>{ null, message }\<close>. In
  \<^verbatim>\<open>createUser\<close> (and in every other operation with a \<^verbatim>\<open>try\<close>) the call of the gate is inside
  the \<^verbatim>\<open>try\<close> block: for a signed-in student the gate rejects, and \<^verbatim>\<open>createUser\<close> returns
  the result \<^verbatim>\<open>{ user: null, error: "Failed to create user" }\<close>.
\<close>

theorem unauthorized_is_caught_counterexample:
  "requireRole [Admin] student_world = (Inl Unauthorized, student_world) \<and>
   fst (createUser (\<lambda>p. p) fresh_row bob_data student_world) =
     Inr \<lparr>error = Some ''Failed to create user'', user = None\<rparr> \<and>
   fst (createUser (\<lambda>p. p) fresh_row bob_data student_world) \<noteq> Inl Unauthorized"
  by (simp add: createUser_def gate_caught requireRole_denied student_world_def alice_def)

text \<open>
  Claim C4, amended. Each operation that has a handler (\<^verbatim>\<open>createUser\<close>, \<^verbatim>\<open>updateUser\<close>,
  \<^verbatim>\<open>updateUserRole\<close>, \<^verbatim>\<open>updateUserStatus\<close>, \<^verbatim>\<open>deleteUser\<close>, \<^verbatim>\<open>updateCurrentUserProfile\<close>,
  \<^verbatim>\<open>updateCurrentUserPassword\<close>) returns a result and never raises, in every world:
  whoever calls and whichever statements the database rejects. It reports every
  failure by its own generic result: it returns \<^verbatim>\<open>{ null, "Failed to ..." }\<close> exactly
  when the role check fails (in the gated operations) or the database rejects a
  statement that the operation sent; so the Unauthorized error is caught and returned
  as that message, and only \<^verbatim>\<open>getUsers\<close>, which has no handler, lets it propagate.
\<close>

theorem handlers_return_results:
  "(\<exists>res. fst (createUser h dflt d w) = Inr res) \<and>
   (\<exists>res. fst (updateUser i es w) = Inr res) \<and>
   (\<exists>res. fst (updateUserRole i ro w) = Inr res) \<and>
   (\<exists>res. fst (updateUserStatus i st w) = Inr res) \<and>
   (\<exists>res. fst (deleteUser_soft i w) = Inr res) \<and>
   (\<exists>res. fst (deleteUser_hard i w) = Inr res) \<and>
   (\<exists>res. fst (updateCurrentUserProfile n e w) = Inr res) \<and>
   (\<exists>res. fst (updateCurrentUserPassword h cur new w) = Inr res) \<and>
   ((case session w of None \<Rightarrow> True | Some u \<Rightarrow> role u \<noteq> Admin) \<longrightarrow>
      fst (createUser h dflt d w) = Inr \<lparr>error = Some ''Failed to create user'', user = None\<rparr> \<and>
      fst (updateUser i es w) = Inr \<lparr>error = Some ''Failed to update user'', user = None\<rparr> \<and>
      fst (updateUserRole i ro w) = Inr \<lparr>error = Some ''Failed to update role''\<rparr> \<and>
      fst (updateUserStatus i st w) = Inr \<lparr>error = Some ''Failed to update status''\<rparr> \<and>
      fst (deleteUser_soft i w) = Inr \<lparr>error = Some ''Failed to delete user''\<rparr> \<and>
      fst (deleteUser_hard i w) = Inr \<lparr>error = Some ''Failed to delete user''\<rparr> \<and>
      fst (getUsers_param r s w) = Inl Unauthorized \<and>
      fst (getUsers_interp raw r s w) = Inl Unauthorized) \<and>
   (fst (createUser h dflt d w) = Inr \<lparr>error = Some ''Failed to create user'', user = None\<rparr>
      \<longleftrightarrow> (case session w of None \<Rightarrow> True | Some u \<Rightarrow> role u \<noteq> Admin) \<or>
          rejected w (snd (createUser h dflt d w))) \<and>
   (fst (updateUser i es w) = Inr \<lparr>error = Some ''Failed to update user'', user = None\<rparr>
      \<longleftrightarrow> (case session w of None \<Rightarrow> True | Some u \<Rightarrow> role u \<noteq> Admin) \<or>
          rejected w (snd (updateUser i es w))) \<and>
   (fst (updateUserRole i ro w) = Inr \<lparr>error = Some ''Failed to update role''\<rparr>
      \<longleftrightarrow> (case session w of None \<Rightarrow> True | Some u \<Rightarrow> role u \<noteq> Admin) \<or>
          rejected w (snd (updateUserRole i ro w))) \<and>
   (fst (updateUserStatus i st w) = Inr \<lparr>error = Some ''Failed to update status''\<rparr>
      \<longleftrightarrow> (case session w of None \<Rightarrow> True | Some u \<Rightarrow> role u \<noteq> Admin) \<or>
          rejected w (snd (updateUserStatus i st w))) \<and>
   (fst (deleteUser_soft i w) = Inr \<lparr>error = Some ''Failed to delete user''\<rparr>
      \<longleftrightarrow> (case session w of None \<Rightarrow> True | Some u \<Rightarrow> role u \<noteq> Admin) \<or>
          rejected w (snd (deleteUser_soft i w))) \<and>
   (fst (deleteUser_hard i w) = Inr \<lparr>error = Some ''Failed to delete user''\<rparr>
      \<longleftrightarrow> (case session w of None \<Rightarrow> True | Some u \<Rightarrow> role u \<noteq> Admin) \<or>
          rejected w (snd (deleteUser_hard i w))) \<and>
   (fst (updateCurrentUserProfile n e w) =
      Inr \<lparr>error = Some ''Failed to update profile'', user = None\<rparr>
      \<longleftrightarrow> rejected w (snd (updateCurrentUserProfile n e w))) \<and>
   (fst (updateCurrentUserPassword h cur new w) =
      Inr \<lparr>error = Some ''Failed to change password''\<rparr>
      \<longleftrightarrow> rejected w (snd (updateCurrentUserPassword h cur new w)))"
proof -
  have returns:
    "(\<exists>res. fst (createUser h dflt d w) = Inr res) \<and>
     (\<exists>res. fst (updateUser i es w) = Inr res) \<and>
     (\<exists>res. fst (updateUserRole i ro w) = Inr res) \<and>
     (\<exists>res. fst (updateUserStatus i st w) = Inr res) \<and>
     (\<exists>res. fst (deleteUser_soft i w) = Inr res) \<and>
     (\<exists>res. fst (deleteUser_hard i w) = Inr res) \<and>
     (\<exists>res. fst (updateCurrentUserProfile n e w) = Inr res) \<and>
     (\<exists>res. fst (updateCurrentUserPassword h cur new w) = Inr res)"
    unfolding createUser_def updateUser_def updateUserRole_def updateUserStatus_def
      deleteUser_soft_def deleteUser_hard_def updateCurrentUserProfile_def
      updateCurrentUserPassword_def
    by (intro conjI try_catch_returns)
  have gate: "fst (createUser h dflt d w) = Inr \<lparr>error = Some ''Failed to create user'', user = None\<rparr> \<and>
      fst (updateUser i es w) = Inr \<lparr>error = Some ''Failed to update user'', user = None\<rparr> \<and>
      fst (updateUserRole i ro w) = Inr \<lparr>error = Some ''Failed to update role''\<rparr> \<and>
      fst (updateUserStatus i st w) = Inr \<lparr>error = Some ''Failed to update status''\<rparr> \<and>
      fst (deleteUser_soft i w) = Inr \<lparr>error = Some ''Failed to delete user''\<rparr> \<and>
      fst (deleteUser_hard i w) = Inr \<lparr>error = Some ''Failed to delete user''\<rparr> \<and>
      fst (getUsers_param r s w) = Inl Unauthorized \<and>
      fst (getUsers_interp raw r s w) = Inl Unauthorized"
    if "case session w of None \<Rightarrow> True | Some u \<Rightarrow> role u \<noteq> Admin"
    unfolding createUser_def updateUser_def updateUserRole_def updateUserStatus_def
      deleteUser_soft_def deleteUser_hard_def getUsers_param_def getUsers_interp_def
    by (simp add: gate_caught [OF that] gate_rejects [OF that])
  note outcomes = createUser_outcome [of h dflt d w] updateUser_outcome [of i es w]
    role_outcome [of i ro w] status_outcome [of i st w] soft_outcome [of i w]
    hard_outcome [of i w] profile_outcome [of n e w] password_outcome [of h cur new w]
  from returns gate outcomes show ?thesis by blast
qed

theorem handlers_return_results_witness:
  "(case session student_world of None \<Rightarrow> True | Some u \<Rightarrow> role u \<noteq> Admin) \<and>
   fst (deleteUser_soft ''0'' student_world) = Inr \<lparr>error = Some ''Failed to delete user''\<rparr> \<and>
   fst (getUsers_param None None student_world) = Inl Unauthorized \<and>
   (\<exists>res. fst (updateCurrentUserPassword (\<lambda>p. p) ''a'' ''b'' student_world) = Inr res) \<and>
   rejected faulty_world (snd (updateUserRole ''1'' Librarian faulty_world)) \<and>
   fst (updateUserRole ''1'' Librarian faulty_world) =
     Inr \<lparr>error = Some ''Failed to update role''\<rparr> \<and>
   rejected faulty_world (snd (updateCurrentUserProfile (Some ''R'') None faulty_world)) \<and>
   fst (updateCurrentUserProfile (Some ''R'') None faulty_world) =
     Inr \<lparr>error = Some ''Failed to update profile'', user = None\<rparr> \<and>
   rejected late_fault_world
     (snd (createUser (\<lambda>p. CHR ''#'' # p) fresh_row bob_data late_fault_world)) \<and>
   fst (createUser (\<lambda>p. CHR ''#'' # p) fresh_row bob_data late_fault_world) =
     Inr \<lparr>error = Some ''Failed to create user'', user = None\<rparr> \<and>
   rejected late_fault_world
     (snd (updateCurrentUserPassword (\<lambda>p. CHR ''#'' # p) ''root'' ''new'' late_fault_world)) \<and>
   fst (updateCurrentUserPassword (\<lambda>p. CHR ''#'' # p) ''root'' ''new'' late_fault_world) =
     Inr \<lparr>error = Some ''Failed to change password''\<rparr>"
proof -
  have r1: "rejected faulty_world (snd (updateUserRole ''1'' Librarian faulty_world))"
    by (simp add: rejected_def updateUserRole_def action_defs faulty_world_def admin_world_def
          root_def update_where_def)
  have r2: "rejected faulty_world (snd (updateCurrentUserProfile (Some ''R'') None faulty_world))"
    by (simp add: rejected_def updateCurrentUserProfile_def profile_write_def action_defs
          faulty_world_def admin_world_def root_def update_where_def)
  have r3: "rejected late_fault_world
     (snd (createUser (\<lambda>p. CHR ''#'' # p) fresh_row bob_data late_fault_world))"
    by (simp add: rejected_def createUser_def action_defs late_fault_world_def admin_world_def
          root_def alice_def bob_data_def select_where_def insert_row_def)
  have r4: "rejected late_fault_world
     (snd (updateCurrentUserPassword (\<lambda>p. CHR ''#'' # p) ''root'' ''new'' late_fault_world))"
    by (simp add: rejected_def updateCurrentUserPassword_def action_defs late_fault_world_def
          admin_world_def root_def alice_def select_where_def update_where_def
          hashPassword_def)
  note student = handlers_return_results
    [of "\<lambda>p. p" fresh_row bob_data student_world "''0''" "[]" Student Active None None
        "''a''" "''b''" None None "\<lambda>t us. us"]
  note faulty = handlers_return_results
    [of "\<lambda>p. p" fresh_row bob_data faulty_world "''1''" "[]" Librarian Active "Some ''R''" None
        "''a''" "''b''" None None "\<lambda>t us. us"]
  note late = handlers_return_results
    [of "\<lambda>p. CHR ''#'' # p" fresh_row bob_data late_fault_world "''1''" "[]" Librarian Active
        None None "''root''" "''new''" None None "\<lambda>t us. us"]
  have s: "case session student_world of None \<Rightarrow> True | Some u \<Rightarrow> role u \<noteq> Admin"
    by (simp add: student_world_def alice_def)
  from student s have a: "fst (deleteUser_soft ''0'' student_world) =
        Inr \<lparr>error = Some ''Failed to delete user''\<rparr>"
      "fst (getUsers_param None None student_world) = Inl Unauthorized"
      "\<exists>res. fst (updateCurrentUserPassword (\<lambda>p. p) ''a'' ''b'' student_world) = Inr res"
    by blast+
  from faulty r1 r2 have b: "fst (updateUserRole ''1'' Librarian faulty_world) =
        Inr \<lparr>error = Some ''Failed to update role''\<rparr>"
      "fst (updateCurrentUserProfile (Some ''R'') None faulty_world) =
        Inr \<lparr>error = Some ''Failed to update profile'', user = None\<rparr>"
    by blast+
  from late r3 r4 have c: "fst (createUser (\<lambda>p. CHR ''#'' # p) fresh_row bob_data late_fault_world) =
        Inr \<lparr>error = Some ''Failed to create user'', user = None\<rparr>"
      "fst (updateCurrentUserPassword (\<lambda>p. CHR ''#'' # p) ''root'' ''new'' late_fault_world) =
        Inr \<lparr>error = Some ''Failed to change password''\<rparr>"
    by blast+
  from s a b c r1 r2 r3 r4 show ?thesis by blast
qed

section \<open>SQL text and caller input\<close>

text \<open>
  Where the values travel as parameters, the text depends only on which arguments are
  given: for \<^verbatim>\<open>getUsers\<close> of \<^verbatim>\<open>part_001\<close> on whether a role and a non-empty search are
  given, for \<^verbatim>\<open>updateUser\<close> on the keys of the defined entries, whatever their values
  and whatever the id.
\<close>

lemma getUsers_query_param_text:
  assumes "r1 = None \<longleftrightarrow> r2 = None" and "truthy s1 \<longleftrightarrow> truthy s2"
  shows "fst (getUsers_query_param f1 r1 s1) = fst (getUsers_query_param f2 r2 s2)"
  using assms
  by (cases r1; cases r2; cases s1; cases s2)
     (simp_all add: getUsers_query_param_def Let_def)

lemma collect_updates_skips_undefined:
  "collect_updates (filter (\<lambda>e. entry_value e \<noteq> None) d) acc = collect_updates d acc"
  by (induction d acc rule: collect_updates.induct) (auto split: option.splits)

lemma collect_updates_defined_text:
  assumes "length d1 = length d2"
    and "\<forall>e\<in>set d1. entry_value e \<noteq> None" and "\<forall>e\<in>set d2. entry_value e \<noteq> None"
    and "map entry_key d1 = map entry_key d2" and "length v1 = length v2"
  shows "fst (collect_updates d1 (u, v1)) = fst (collect_updates d2 (u, v2)) \<and>
         length (snd (collect_updates d1 (u, v1))) = length (snd (collect_updates d2 (u, v2)))"
  using assms
proof (induction d1 d2 arbitrary: u v1 v2 rule: list_induct2)
  case Nil
  then show ?case by simp
next
  case (Cons x xs y ys)
  from Cons.prems obtain a b where v: "entry_value x = Some a" "entry_value y = Some b"
    by auto
  from Cons.prems have k: "entry_key x = entry_key y" by simp
  from Cons.prems have rest: "\<forall>e\<in>set xs. entry_value e \<noteq> None"
    "\<forall>e\<in>set ys. entry_value e \<noteq> None" "map entry_key xs = map entry_key ys"
    by simp_all
  have "length (v1 @ [a]) = length (v2 @ [b])"
    using Cons.prems by simp
  from Cons.IH [OF rest this, of "u @ [entry_key x @ '' = $'' @ show_nat (length v1 + 1)]"]
    v k Cons.prems(4)
  show ?case by simp
qed

lemma updateUser_query_text:
  assumes "map entry_key (filter (\<lambda>e. entry_value e \<noteq> None) d1) =
           map entry_key (filter (\<lambda>e. entry_value e \<noteq> None) d2)"
  shows "fst (case collect_updates d1 ([], []) of (ups, vals) \<Rightarrow> updateUser_query i1 ups vals) =
         fst (case collect_updates d2 ([], []) of (ups, vals) \<Rightarrow> updateUser_query i2 ups vals)"
proof -
  let ?f1 = "filter (\<lambda>e. entry_value e \<noteq> None) d1"
  let ?f2 = "filter (\<lambda>e. entry_value e \<noteq> None) d2"
  have len: "length ?f1 = length ?f2"
    using assms by (metis length_map)
  have all1: "\<forall>e\<in>set ?f1. entry_value e \<noteq> None"
    and all2: "\<forall>e\<in>set ?f2. entry_value e \<noteq> None"
    by simp_all
  have "fst (collect_updates ?f1 ([], [])) = fst (collect_updates ?f2 ([], [])) \<and>
        length (snd (collect_updates ?f1 ([], []))) = length (snd (collect_updates ?f2 ([], [])))"
    by (rule collect_updates_defined_text [OF len all1 all2 assms refl])
  then have same: "fst (collect_updates d1 ([], [])) = fst (collect_updates d2 ([], []))"
    "length (snd (collect_updates d1 ([], []))) = length (snd (collect_updates d2 ([], [])))"
    unfolding collect_updates_skips_undefined by blast+
  obtain u1 v1 u2 v2 where c: "collect_updates d1 ([], []) = (u1, v1)"
    "collect_updates d2 ([], []) = (u2, v2)"
    by (cases "collect_updates d1 ([], [])"; cases "collect_updates d2 ([], [])") blast
  with same show ?thesis
    by (simp add: updateUser_query_def Let_def)
qed

text \<open>
  Claim C3 (the SQL text never depends on the values the caller supplies), evaluated on
  \<^verbatim>\<open>getUsers\<close> of \<^verbatim>\<open>user-actions.ts\<close>: two calls that differ only in the search string
  send different SQL texts, and no parameter at all, whereas \<^verbatim>\<open>getUsers\<close> of
  \<^verbatim>\<open>part_001\<close> sends the same text for both.
\<close>

theorem getUsers_interp_text_carries_search:
  "fst (getUsers_query_interp ascii_lower None (Some ''a'')) \<noteq>
     fst (getUsers_query_interp ascii_lower None (Some ''b'')) \<and>
   snd (getUsers_query_interp ascii_lower None (Some ''a'')) = [] \<and>
   fst (getUsers_query_param ascii_lower None (Some ''a'')) =
     fst (getUsers_query_param ascii_lower None (Some ''b''))"
  by (simp add: getUsers_query_interp_def getUsers_query_param_def ascii_lower_def
        ascii_lower_char_def quote_def Let_def)

section \<open>An update without fields\<close>

lemma collect_updates_undefined:
  "\<forall>e\<in>set data. entry_value e = None \<Longrightarrow> collect_updates data acc = acc"
  by (induction data acc rule: collect_updates.induct) auto

text \<open>
  Claim C8. For every id, \<^verbatim>\<open>updateUser(id, data)\<close> with a payload whose every field is
  undefined (the empty object included) sends no statement and changes no row: the world
  after the call is the world before it, and the result has no user and an error
  message, which for a caller who passes the role gate is "No updates provided".
\<close>

theorem updateUser_without_fields:
  assumes "\<forall>e\<in>set data. entry_value e = None"
  shows "snd (updateUser i data w) = w \<and>
         (\<exists>msg. fst (updateUser i data w) = Inr \<lparr>error = Some msg, user = None\<rparr>) \<and>
         ((\<exists>a. session w = Some a \<and> role a = Admin) \<longrightarrow>
            fst (updateUser i data w) = Inr \<lparr>error = Some ''No updates provided'', user = None\<rparr>)"
proof (cases "\<exists>a. session w = Some a \<and> role a = Admin")
  case True
  then obtain a where a: "session w = Some a" "role a = Admin" by blast
  have "updateUser i data w = (Inr \<lparr>error = Some ''No updates provided'', user = None\<rparr>, w)"
    unfolding updateUser_def
    by (simp add: try_catch_def gate_passes [OF a] collect_updates_undefined [OF assms] resolve_def)
  then show ?thesis by simp
next
  case False
  then have na: "case session w of None \<Rightarrow> True | Some u \<Rightarrow> role u \<noteq> Admin"
    by (auto split: option.splits)
  have "updateUser i data w = (Inr \<lparr>error = Some ''Failed to update user'', user = None\<rparr>, w)"
    unfolding updateUser_def by (simp add: gate_caught [OF na])
  with False show ?thesis by simp
qed

theorem updateUser_without_fields_witness:
  "map entry_value [E_full_name None, E_role None] = [None, None] \<and>
   (\<exists>a. session admin_world = Some a \<and> role a = Admin) \<and>
   updateUser ''1'' [E_full_name None, E_role None] admin_world =
     (Inr \<lparr>error = Some ''No updates provided'', user = None\<rparr>, admin_world) \<and>
   updateUser ''1'' [] admin_world =
     (Inr \<lparr>error = Some ''No updates provided'', user = None\<rparr>, admin_world)"
proof -
  have h: "\<forall>e\<in>set [E_full_name None, E_role None]. entry_value e = None" by simp
  have a: "\<exists>a. session admin_world = Some a \<and> role a = Admin"
    by (simp add: admin_world_def root_def)
  from updateUser_without_fields [OF h, of "''1''" admin_world] a
       updateUser_without_fields [of "[]" "''1''" admin_world] h
  show ?thesis by (simp add: prod_eq_iff)
qed

section \<open>Reading one user and the statistics needs no session\<close>

text \<open>
  Claim C9. \<^verbatim>\<open>getUserById\<close> and \<^verbatim>\<open>getUserStats\<close> look up no session and check no role:
  whoever the caller is (also no one), and unless the database rejects the statement,
  \<^verbatim>\<open>getUserById(id)\<close> returns the first stored row with that id, which for a table with
  unique ids is the record itself, whatever its status (a soft-deleted, inactive record
  included), and \<^verbatim>\<open>getUserStats\<close> returns the counts over the table (in \<^verbatim>\<open>part_001\<close>
  without the inactive rows, in \<^verbatim>\<open>user-actions.ts\<close> over all rows).
\<close>

theorem reads_need_no_session:
  assumes "db_faults w = []"
  shows "fst (getUserById i (w\<lparr>session := caller\<rparr>)) = Inr (find (\<lambda>u. user_id u = i) (users w)) \<and>
         (distinct (map user_id (users w)) \<and> u \<in> set (users w) \<longrightarrow>
            fst (getUserById (user_id u) (w\<lparr>session := caller\<rparr>)) = Inr (Some u)) \<and>
         fst (getUserStats_active (w\<lparr>session := caller\<rparr>)) =
           Inr (Some \<lparr>total_users = length (filter (\<lambda>u. status u \<noteq> Inactive) (users w)),
                      students = length (filter (\<lambda>u. role u = Student \<and> status u \<noteq> Inactive) (users w)),
                      faculty = length (filter (\<lambda>u. role u = Faculty \<and> status u \<noteq> Inactive) (users w)),
                      librarians = length (filter (\<lambda>u. role u = Librarian \<and> status u \<noteq> Inactive) (users w)),
                      admins = length (filter (\<lambda>u. role u = Admin \<and> status u \<noteq> Inactive) (users w)),
                      active_users = length (filter (\<lambda>u. status u = Active) (users w))\<rparr>) \<and>
         fst (getUserStats_all (w\<lparr>session := caller\<rparr>)) =
           Inr (Some \<lparr>total_users = length (users w),
                      students = length (filter (\<lambda>u. role u = Student) (users w)),
                      faculty = length (filter (\<lambda>u. role u = Faculty) (users w)),
                      librarians = length (filter (\<lambda>u. role u = Librarian) (users w)),
                      admins = length (filter (\<lambda>u. role u = Admin) (users w)),
                      active_users = length (filter (\<lambda>u. status u = Active) (users w))\<rparr>)"
proof -
  let ?w = "w\<lparr>session := caller\<rparr>"
  have ok: "db_faults ?w = []" using assms by simp
  have byid: "\<And>j. fst (getUserById j ?w) = Inr (find (\<lambda>u. user_id u = j) (users w))"
    by (simp add: getUserById_accepted [OF ok])
  have one: "fst (getUserById (user_id u) ?w) = Inr (Some u)"
    if "distinct (map user_id (users w))" "u \<in> set (users w)"
    using that by (simp add: byid find_distinct_key)
  have s1: "fst (getUserStats_active ?w) = Inr (Some \<lparr>total_users = length (filter (\<lambda>u. status u \<noteq> Inactive) (users w)),
                      students = length (filter (\<lambda>u. role u = Student \<and> status u \<noteq> Inactive) (users w)),
                      faculty = length (filter (\<lambda>u. role u = Faculty \<and> status u \<noteq> Inactive) (users w)),
                      librarians = length (filter (\<lambda>u. role u = Librarian \<and> status u \<noteq> Inactive) (users w)),
                      admins = length (filter (\<lambda>u. role u = Admin \<and> status u \<noteq> Inactive) (users w)),
                      active_users = length (filter (\<lambda>u. status u = Active) (users w))\<rparr>)"
    by (simp add: getUserStats_active_def await_def sql_accepted [OF ok] resolve_def count_where_def)
  have s2: "fst (getUserStats_all ?w) = Inr (Some \<lparr>total_users = length (users w),
                      students = length (filter (\<lambda>u. role u = Student) (users w)),
                      faculty = length (filter (\<lambda>u. role u = Faculty) (users w)),
                      librarians = length (filter (\<lambda>u. role u = Librarian) (users w)),
                      admins = length (filter (\<lambda>u. role u = Admin) (users w)),
                      active_users = length (filter (\<lambda>u. status u = Active) (users w))\<rparr>)"
    by (simp add: getUserStats_all_def await_def sql_accepted [OF ok] resolve_def count_where_def)
  from byid one s1 s2 show ?thesis by blast
qed

theorem reads_need_no_session_witness:
  "db_faults guest_world = [] \<and> distinct (map user_id (users guest_world)) \<and>
   zoe \<in> set (users guest_world) \<and> status zoe = Inactive \<and> session guest_world = None \<and>
   fst (getUserById ''3'' guest_world) = Inr (Some zoe) \<and>
   fst (getUserStats_active guest_world) =
     Inr (Some \<lparr>total_users = 2, students = 1, faculty = 0, librarians = 0, admins = 1, active_users = 2\<rparr>) \<and>
   fst (getUserStats_all guest_world) =
     Inr (Some \<lparr>total_users = 3, students = 1, faculty = 0, librarians = 1, admins = 1, active_users = 2\<rparr>)"
  using reads_need_no_session [of guest_world "''3''" None zoe]
  by (simp add: guest_world_def zoe_def alice_def root_def)

section \<open>A target id that is not in the table\<close>

text \<open>
  Claim C10. For an id that no row of the table has, an administrator's
  \<^verbatim>\<open>updateUserRole\<close>, \<^verbatim>\<open>updateUserStatus\<close> and \<^verbatim>\<open>deleteUser\<close> (soft or hard) return
  \<^verbatim>\<open>{ error: null }\<close>, and \<^verbatim>\<open>updateUser\<close> with at least one defined field returns
  \<^verbatim>\<open>error: null\<close> without a user (\<^verbatim>\<open>result[0]\<close> of an empty result): nothing reports the
  missing target, and the table is unchanged. (The database accepts the statement.)
\<close>

theorem absent_id_is_success:
  assumes "session w = Some a" and "role a = Admin" and "db_faults w = []"
    and "i \<notin> user_id ` set (users w)"
  shows "fst (updateUserRole i r w) = Inr \<lparr>error = None\<rparr> \<and>
         users (snd (updateUserRole i r w)) = users w \<and>
         fst (updateUserStatus i s w) = Inr \<lparr>error = None\<rparr> \<and>
         users (snd (updateUserStatus i s w)) = users w \<and>
         fst (deleteUser_soft i w) = Inr \<lparr>error = None\<rparr> \<and>
         users (snd (deleteUser_soft i w)) = users w \<and>
         fst (deleteUser_hard i w) = Inr \<lparr>error = None\<rparr> \<and>
         users (snd (deleteUser_hard i w)) = users w \<and>
         ((\<exists>e\<in>set data. entry_value e \<noteq> None) \<longrightarrow>
            fst (updateUser i data w) = Inr \<lparr>error = None, user = None\<rparr> \<and>
            users (snd (updateUser i data w)) = users w)"
proof -
  have none: "\<forall>u\<in>set (users w). \<not> user_id u = i"
    using assms(4) by auto
  note upd = update_where_absent [OF none] and del = delete_where_absent [OF none]
  note pass = gate_passes [OF assms(1,2)] and run = await_sql_accepted [OF assms(3)]
  have simple:
    "fst (updateUserRole i r w) = Inr \<lparr>error = None\<rparr> \<and>
     users (snd (updateUserRole i r w)) = users w \<and>
     fst (updateUserStatus i s w) = Inr \<lparr>error = None\<rparr> \<and>
     users (snd (updateUserStatus i s w)) = users w \<and>
     fst (deleteUser_soft i w) = Inr \<lparr>error = None\<rparr> \<and>
     users (snd (deleteUser_soft i w)) = users w \<and>
     fst (deleteUser_hard i w) = Inr \<lparr>error = None\<rparr> \<and>
     users (snd (deleteUser_hard i w)) = users w"
    unfolding updateUserRole_def updateUserStatus_def deleteUser_soft_def deleteUser_hard_def
    by (simp add: try_catch_def pass run upd del resolve_def)
  have partial:
    "fst (updateUser i data w) = Inr \<lparr>error = None, user = None\<rparr> \<and>
     users (snd (updateUser i data w)) = users w"
    if "\<exists>e\<in>set data. entry_value e \<noteq> None"
  proof -
    obtain ups vals where c: "collect_updates data ([], []) = (ups, vals)"
      by (cases "collect_updates data ([], [])")
    have "ups \<noteq> []"
      using collect_updates_empty_iff [of data "[]" "[]"] c that by auto
    then show ?thesis
      unfolding updateUser_def
      by (simp add: try_catch_def pass c run upd resolve_def)
  qed
  from simple partial show ?thesis by blast
qed

theorem absent_id_is_success_witness:
  "session admin_world = Some root \<and> role root = Admin \<and> db_faults admin_world = [] \<and>
   ''9'' \<notin> user_id ` set (users admin_world) \<and>
   entry_value (E_phone (Some ''555'')) \<noteq> None \<and>
   fst (updateUserRole ''9'' Librarian admin_world) = Inr \<lparr>error = None\<rparr> \<and>
   fst (updateUserStatus ''9'' Suspended admin_world) = Inr \<lparr>error = None\<rparr> \<and>
   fst (deleteUser_soft ''9'' admin_world) = Inr \<lparr>error = None\<rparr> \<and>
   fst (deleteUser_hard ''9'' admin_world) = Inr \<lparr>error = None\<rparr> \<and>
   users (snd (deleteUser_hard ''9'' admin_world)) = users admin_world \<and>
   fst (updateUser ''9'' [E_phone (Some ''555'')] admin_world) = Inr \<lparr>error = None, user = None\<rparr> \<and>
   users (snd (updateUser ''9'' [E_phone (Some ''555'')] admin_world)) = users admin_world"
  using absent_id_is_success [of admin_world root "''9''" Librarian Suspended "[E_phone (Some ''555'')]"]
  by (simp add: admin_world_def root_def alice_def)

section \<open>Changing the password\<close>

text \<open>
  Claim C6. Without a session \<^verbatim>\<open>updateCurrentUserPassword\<close> returns "Not authenticated"
  and sends nothing. For a signed-in user (and a database that accepts the statements):
  when the table has no row of the user, it returns an error and changes no row; when
  it has one, it succeeds, returning \<^verbatim>\<open>{ error: null }\<close> and writing the hash of the
  new password, exactly when the hash of the supplied current password equals the stored
  digest, and with a wrong current password it returns an error and leaves every row as
  it was. Creation uses the same function: an administrator's \<^verbatim>\<open>createUser\<close> with a new
  email appends to the table, and returns, a row whose digest is \<open>hashPassword\<close> of the
  password given, and when the new row has an id of its own, the created user changes
  the password with that password and with no password of another digest.
\<close>

theorem password_change_iff_hash_matches:
  "(session w = None \<longrightarrow>
      updateCurrentUserPassword H cur new w =
        (Inr \<lparr>error = Some ''Not authenticated''\<rparr>, w)) \<and>
   (\<forall>me. session w = Some me \<and> db_faults w = [] \<longrightarrow>
      (case find (\<lambda>u. user_id u = user_id me) (users w) of
         None \<Rightarrow>
           fst (updateCurrentUserPassword H cur new w) =
             Inr \<lparr>error = Some ''Current password is incorrect''\<rparr> \<and>
           users (snd (updateCurrentUserPassword H cur new w)) = users w
       | Some row \<Rightarrow>
           (fst (updateCurrentUserPassword H cur new w) = Inr \<lparr>error = None\<rparr>
              \<longleftrightarrow> hashPassword H cur = password_hash row) \<and>
           (hashPassword H cur = password_hash row \<longrightarrow>
              users (snd (updateCurrentUserPassword H cur new w)) =
                map (\<lambda>u. if user_id u = user_id me
                          then u\<lparr>password_hash := hashPassword H new\<rparr> else u) (users w)) \<and>
           (hashPassword H cur \<noteq> password_hash row \<longrightarrow>
              fst (updateCurrentUserPassword H cur new w) =
                Inr \<lparr>error = Some ''Current password is incorrect''\<rparr> \<and>
              users (snd (updateCurrentUserPassword H cur new w)) = users w))) \<and>
   (\<forall>a. session w = Some a \<and> role a = Admin \<and> db_faults w = [] \<and>
        new_email data \<notin> email ` set (users w) \<longrightarrow>
      (\<exists>row. fst (createUser H dflt data w) = Inr \<lparr>error = None, user = Some row\<rparr> \<and>
             users (snd (createUser H dflt data w)) = users w @ [row] \<and>
             password_hash row = hashPassword H (new_password data) \<and>
             (user_id dflt \<notin> user_id ` set (users w) \<longrightarrow>
                fst (updateCurrentUserPassword H (new_password data) new
                       ((snd (createUser H dflt data w))\<lparr>session := Some row\<rparr>)) =
                  Inr \<lparr>error = None\<rparr> \<and>
                (hashPassword H cur \<noteq> hashPassword H (new_password data) \<longrightarrow>
                   fst (updateCurrentUserPassword H cur new
                          ((snd (createUser H dflt data w))\<lparr>session := Some row\<rparr>)) =
                     Inr \<lparr>error = Some ''Current password is incorrect''\<rparr>)))) \<and>
   (\<forall>w0 dflt0 data0 created.
      fst (createUser H dflt0 data0 w0) = Inr \<lparr>error = None, user = Some created\<rparr> \<longrightarrow>
      password_hash created = hashPassword H (new_password data0))"
proof -
  have creation:
    "\<exists>row. fst (createUser H dflt data w) = Inr \<lparr>error = None, user = Some row\<rparr> \<and>
           users (snd (createUser H dflt data w)) = users w @ [row] \<and>
           password_hash row = hashPassword H (new_password data) \<and>
           (user_id dflt \<notin> user_id ` set (users w) \<longrightarrow>
              fst (updateCurrentUserPassword H (new_password data) new
                     ((snd (createUser H dflt data w))\<lparr>session := Some row\<rparr>)) =
                Inr \<lparr>error = None\<rparr> \<and>
              (hashPassword H cur \<noteq> hashPassword H (new_password data) \<longrightarrow>
                 fst (updateCurrentUserPassword H cur new
                        ((snd (createUser H dflt data w))\<lparr>session := Some row\<rparr>)) =
                   Inr \<lparr>error = Some ''Current password is incorrect''\<rparr>))"
    if a: "session w = Some a" "role a = Admin" "db_faults w = []"
      "new_email data \<notin> email ` set (users w)" for a
  proof -
    define row where "row = dflt\<lparr>email := new_email data,
                                 password_hash := hashPassword H (new_password data),
                                 full_name := new_full_name data,
                                 role := new_role data,
                                 university_id := or_null (new_university_id data),
                                 university_name := or_null (new_university_name data),
                                 department := or_null (new_department data),
                                 year_level := or_null (new_year_level data),
                                 course := or_null (new_course data)\<rparr>"
    let ?w1 = "snd (createUser H dflt data w)"
    let ?w2 = "?w1\<lparr>session := Some row\<rparr>"
    from createUser_accepted [OF a, of H dflt]
    have c: "fst (createUser H dflt data w) = Inr \<lparr>error = None, user = Some row\<rparr>"
      "users ?w1 = users w @ [row]" "db_faults ?w1 = []"
      by (simp_all add: row_def)
    have h: "password_hash row = hashPassword H (new_password data)" "user_id row = user_id dflt"
      by (simp_all add: row_def)
    have again: "fst (updateCurrentUserPassword H (new_password data) new ?w2) =
                  Inr \<lparr>error = None\<rparr> \<and>
                (hashPassword H cur \<noteq> hashPassword H (new_password data) \<longrightarrow>
                   fst (updateCurrentUserPassword H cur new ?w2) =
                     Inr \<lparr>error = Some ''Current password is incorrect''\<rparr>)"
      if "user_id dflt \<notin> user_id ` set (users w)"
    proof -
      have s2: "session ?w2 = Some row" "db_faults ?w2 = []"
        using c(3) by simp_all
      have f: "find (\<lambda>u. user_id u = user_id row) (users ?w2) = Some row"
        using find_appended_key [OF that h(2)] c(2) h(2) by simp
      from password_outcomes [OF s2, of H "new_password data" new]
           password_outcomes [OF s2, of H cur new] f h(1)
      show ?thesis by simp
    qed
    from c(1,2) h(1) again show ?thesis by blast
  qed
  have returned: "password_hash created = hashPassword H (new_password data0)"
    if "fst (createUser H dflt0 data0 w0) = Inr \<lparr>error = None, user = Some created\<rparr>"
    for w0 dflt0 data0 created
    using that unfolding createUser_def
    by (auto simp add: try_catch_def await_def sql_def Let_def resolve_def insert_row_def
          select_where_def split: prod.splits sum.splits if_splits)
  from password_no_session [of w H cur new] password_outcomes [of w _ H cur new]
    creation returned
  show ?thesis by blast
qed


theorem password_change_iff_hash_matches_witness:
  "session guest_world = None \<and>
   updateCurrentUserPassword (\<lambda>p. CHR ''#'' # p) ''pw'' ''new'' guest_world =
     (Inr \<lparr>error = Some ''Not authenticated''\<rparr>, guest_world) \<and>
   session student_world = Some alice \<and> db_faults student_world = [] \<and>
   find (\<lambda>u. user_id u = user_id alice) (users student_world) = Some alice \<and>
   hashPassword (\<lambda>p. CHR ''#'' # p) ''pw'' = password_hash alice \<and>
   fst (updateCurrentUserPassword (\<lambda>p. CHR ''#'' # p) ''pw'' ''new'' student_world) =
     Inr \<lparr>error = None\<rparr> \<and>
   users (snd (updateCurrentUserPassword (\<lambda>p. CHR ''#'' # p) ''pw'' ''new'' student_world)) =
     [root, alice\<lparr>password_hash := ''#new''\<rparr>] \<and>
   hashPassword (\<lambda>p. CHR ''#'' # p) ''guess'' \<noteq> password_hash alice \<and>
   fst (updateCurrentUserPassword (\<lambda>p. CHR ''#'' # p) ''guess'' ''new'' student_world) =
     Inr \<lparr>error = Some ''Current password is incorrect''\<rparr> \<and>
   users (snd (updateCurrentUserPassword (\<lambda>p. CHR ''#'' # p) ''guess'' ''new'' student_world)) =
     [root, alice] \<and>
   find (\<lambda>u. user_id u = user_id fresh_row) (users student_world) = None \<and>
   fst (updateCurrentUserPassword (\<lambda>p. CHR ''#'' # p) ''pw'' ''new''
          (student_world\<lparr>session := Some fresh_row\<rparr>)) =
     Inr \<lparr>error = Some ''Current password is incorrect''\<rparr> \<and>
   users (snd (updateCurrentUserPassword (\<lambda>p. CHR ''#'' # p) ''pw'' ''new''
                 (student_world\<lparr>session := Some fresh_row\<rparr>))) = [root, alice] \<and>
   session admin_world = Some root \<and> role root = Admin \<and> db_faults admin_world = [] \<and>
   new_email bob_data \<notin> email ` set (users admin_world) \<and>
   user_id fresh_row \<notin> user_id ` set (users admin_world) \<and>
   (\<exists>row. fst (createUser (\<lambda>p. CHR ''#'' # p) fresh_row bob_data admin_world) =
            Inr \<lparr>error = None, user = Some row\<rparr> \<and>
          users (snd (createUser (\<lambda>p. CHR ''#'' # p) fresh_row bob_data admin_world)) =
            [root, alice, row] \<and>
          password_hash row = ''#pw'' \<and>
          fst (updateCurrentUserPassword (\<lambda>p. CHR ''#'' # p) ''pw'' ''new''
                 ((snd (createUser (\<lambda>p. CHR ''#'' # p) fresh_row bob_data admin_world))
                    \<lparr>session := Some row\<rparr>)) = Inr \<lparr>error = None\<rparr> \<and>
          fst (updateCurrentUserPassword (\<lambda>p. CHR ''#'' # p) ''guess'' ''new''
                 ((snd (createUser (\<lambda>p. CHR ''#'' # p) fresh_row bob_data admin_world))
                    \<lparr>session := Some row\<rparr>)) =
            Inr \<lparr>error = Some ''Current password is incorrect''\<rparr>)"
proof -
  let ?H = "\<lambda>p. CHR ''#'' # p"
  note guest = password_change_iff_hash_matches
    [where w = guest_world and H = ?H and cur = "''pw''" and new = "''new''",
     THEN conjunct1]
  note right = password_change_iff_hash_matches
    [where w = student_world and H = ?H and cur = "''pw''" and new = "''new''",
     THEN conjunct2, THEN conjunct1, THEN spec, of alice]
  note wrong = password_change_iff_hash_matches
    [where w = student_world and H = ?H and cur = "''guess''" and new = "''new''",
     THEN conjunct2, THEN conjunct1, THEN spec, of alice]
  note orphan = password_change_iff_hash_matches
    [where w = "student_world\<lparr>session := Some fresh_row\<rparr>" and H = ?H and cur = "''pw''"
       and new = "''new''",
     THEN conjunct2, THEN conjunct1, THEN spec, of fresh_row]
  note create = password_change_iff_hash_matches
    [where w = admin_world and H = ?H and cur = "''guess''" and new = "''new''"
       and data = bob_data and dflt = fresh_row,
     THEN conjunct2, THEN conjunct2, THEN conjunct1, THEN spec, of root]
  have g: "session guest_world = None"
    by (simp add: guest_world_def)
  have s: "session student_world = Some alice" "db_faults student_world = []"
    "find (\<lambda>u. user_id u = user_id alice) (users student_world) = Some alice"
    "hashPassword ?H ''pw'' = password_hash alice"
    "hashPassword ?H ''guess'' \<noteq> password_hash alice"
    "find (\<lambda>u. user_id u = user_id fresh_row) (users student_world) = None"
    "users student_world = [root, alice]"
    by (simp_all add: student_world_def alice_def root_def fresh_row_def hashPassword_def)
  have a: "session admin_world = Some root" "role root = Admin" "db_faults admin_world = []"
    "new_email bob_data \<notin> email ` set (users admin_world)"
    "user_id fresh_row \<notin> user_id ` set (users admin_world)"
    "users admin_world = [root, alice]"
    "hashPassword ?H ''guess'' \<noteq> hashPassword ?H (new_password bob_data)"
    "hashPassword ?H (new_password bob_data) = ''#pw''" "new_password bob_data = ''pw''"
    by (simp_all add: admin_world_def alice_def root_def fresh_row_def bob_data_def
          hashPassword_def)
  from guest g have c1: "updateCurrentUserPassword ?H ''pw'' ''new'' guest_world =
     (Inr \<lparr>error = Some ''Not authenticated''\<rparr>, guest_world)"
    by blast
  from right s have c2: "fst (updateCurrentUserPassword ?H ''pw'' ''new'' student_world) =
       Inr \<lparr>error = None\<rparr>"
    "users (snd (updateCurrentUserPassword ?H ''pw'' ''new'' student_world)) =
       [root, alice\<lparr>password_hash := ''#new''\<rparr>]"
    by (simp_all add: alice_def root_def hashPassword_def)
  from wrong s have c3: "fst (updateCurrentUserPassword ?H ''guess'' ''new'' student_world) =
       Inr \<lparr>error = Some ''Current password is incorrect''\<rparr>"
    "users (snd (updateCurrentUserPassword ?H ''guess'' ''new'' student_world)) = [root, alice]"
    by simp_all
  from orphan s have c4:
    "fst (updateCurrentUserPassword ?H ''pw'' ''new''
          (student_world\<lparr>session := Some fresh_row\<rparr>)) =
       Inr \<lparr>error = Some ''Current password is incorrect''\<rparr>"
    "users (snd (updateCurrentUserPassword ?H ''pw'' ''new''
                 (student_world\<lparr>session := Some fresh_row\<rparr>))) = [root, alice]"
    by simp_all
  from create a have c5:
    "\<exists>row. fst (createUser ?H fresh_row bob_data admin_world) =
            Inr \<lparr>error = None, user = Some row\<rparr> \<and>
          users (snd (createUser ?H fresh_row bob_data admin_world)) = [root, alice, row] \<and>
          password_hash row = ''#pw'' \<and>
          fst (updateCurrentUserPassword ?H ''pw'' ''new''
                 ((snd (createUser ?H fresh_row bob_data admin_world))
                    \<lparr>session := Some row\<rparr>)) = Inr \<lparr>error = None\<rparr> \<and>
          fst (updateCurrentUserPassword ?H ''guess'' ''new''
                 ((snd (createUser ?H fresh_row bob_data admin_world))
                    \<lparr>session := Some row\<rparr>)) =
            Inr \<lparr>error = Some ''Current password is incorrect''\<rparr>"
    by auto
  from g s(1-6) a(1-5) c1 c2 c3 c4 c5 show ?thesis by blast
qed

section \<open>Soft delete\<close>

text \<open>
  Claim C2. In the soft-delete version (\<^verbatim>\<open>part_001\<close>), for a user \<open>u\<close> in a table with
  unique ids, an administrator's \<^verbatim>\<open>deleteUser(id)\<close> succeeds and afterwards
  \<^verbatim>\<open>getUsers\<close>, with any role and search arguments, returns no row with that id; if the
  user was not inactive before, \<^verbatim>\<open>total_users\<close> of \<^verbatim>\<open>getUserStats\<close> is one less than
  before the delete; and \<^verbatim>\<open>getUserById(id)\<close> still returns the record, now with status
  inactive. (The database accepts the statements.)
\<close>

theorem soft_delete_hides_the_user:
  assumes "session w = Some a" and "role a = Admin" and "db_faults w = []"
    and "distinct (map user_id (users w))" and "u \<in> set (users w)"
  shows "fst (deleteUser_soft (user_id u) w) = Inr \<lparr>error = None\<rparr> \<and>
         (\<exists>rows. fst (getUsers_param r s (snd (deleteUser_soft (user_id u) w))) = Inr rows \<and>
                 user_id u \<notin> user_id ` set rows) \<and>
         (status u \<noteq> Inactive \<longrightarrow>
            (\<exists>before after.
               fst (getUserStats_active w) = Inr (Some before) \<and>
               fst (getUserStats_active (snd (deleteUser_soft (user_id u) w))) = Inr (Some after) \<and>
               total_users after + 1 = total_users before)) \<and>
         fst (getUserById (user_id u) (snd (deleteUser_soft (user_id u) w))) =
           Inr (Some (u\<lparr>status := Inactive\<rparr>))"
proof -
  let ?del = "\<lambda>x. if user_id x = user_id u then x\<lparr>status := Inactive\<rparr> else x"
  let ?w' = "snd (deleteUser_soft (user_id u) w)"
  note del = deleteUser_soft_accepted [OF assms(1-3), of "user_id u"]
  have w': "session ?w' = Some a" "db_faults ?w' = []" "users ?w' = map ?del (users w)"
    by (simp_all add: del assms)
  have ok: "fst (deleteUser_soft (user_id u) w) = Inr \<lparr>error = None\<rparr>"
    by (simp add: del)
  have gone: "user_id u \<notin> user_id ` set (filter (getUsers_where f g r s) (map ?del (users w)))"
    for f g
    by (auto simp add: getUsers_where_def)
  have listing: "\<exists>rows. fst (getUsers_param r s ?w') = Inr rows \<and> user_id u \<notin> user_id ` set rows"
    using gone by (simp add: getUsers_param_accepted [OF w'(1) assms(2) w'(2)] w'(3))
  have stats: "\<exists>before after.
               fst (getUserStats_active w) = Inr (Some before) \<and>
               fst (getUserStats_active ?w') = Inr (Some after) \<and>
               total_users after + 1 = total_users before"
    if "status u \<noteq> Inactive"
    using count_after_soft_delete [OF assms(4,5) that]
    by (simp add: getUserStats_active_def await_sql_accepted [OF assms(3)]
          await_sql_accepted [OF w'(2)] w'(3) resolve_def count_where_def)
  have byid: "fst (getUserById (user_id u) ?w') = Inr (Some (u\<lparr>status := Inactive\<rparr>))"
    by (simp add: getUserById_accepted [OF w'(2)] w'(3) find_after_soft_delete [OF assms(4,5)])
  from ok listing stats byid show ?thesis by blast
qed

theorem soft_delete_hides_the_user_witness:
  "session admin_world = Some root \<and> role root = Admin \<and> db_faults admin_world = [] \<and>
   distinct (map user_id (users admin_world)) \<and> alice \<in> set (users admin_world) \<and>
   status alice \<noteq> Inactive \<and>
   fst (deleteUser_soft ''1'' admin_world) = Inr \<lparr>error = None\<rparr> \<and>
   (\<exists>rows. fst (getUsers_param None (Some ''ali'') (snd (deleteUser_soft ''1'' admin_world))) = Inr rows \<and>
           ''1'' \<notin> user_id ` set rows) \<and>
   (\<exists>before after.
      fst (getUserStats_active admin_world) = Inr (Some before) \<and>
      fst (getUserStats_active (snd (deleteUser_soft ''1'' admin_world))) = Inr (Some after) \<and>
      total_users after + 1 = total_users before) \<and>
   fst (getUserById ''1'' (snd (deleteUser_soft ''1'' admin_world))) =
     Inr (Some (alice\<lparr>status := Inactive\<rparr>))"
proof -
  have h: "session admin_world = Some root" "role root = Admin" "db_faults admin_world = []"
    "distinct (map user_id (users admin_world))" "alice \<in> set (users admin_world)"
    by (simp_all add: admin_world_def root_def alice_def)
  have i: "user_id alice = ''1''" "status alice \<noteq> Inactive"
    by (simp_all add: alice_def)
  from soft_delete_hides_the_user [OF h, of None "Some ''ali''"] h i
  show ?thesis by simp
qed

section \<open>What the listing returns\<close>




section \<open>Uniqueness of the email\<close>





end
